theory Spec2Isabelle
  imports Complex_Main "HOL-Library.Sublist" "HOL-Library.Char_ord" "HOL-Library.List_Lexorder"
begin

section \<open>Strings\<close>

text \<open>
  A JavaScript string is a sequence of UTF-16 code units. A \<^typ>\<open>char\<close> stands for a code
  unit below 256 (the Latin-1 range), so \<^typ>\<open>string\<close> covers the strings over that range;
  \<open>toLowerCase\<close>, the white space class and the default sort order are the JavaScript ones
  restricted to it.
\<close>

definition isUpperCase :: "char \<Rightarrow> bool" where
  "isUpperCase c =
     (let n = (of_char c :: nat)
      in (65 \<le> n \<and> n \<le> 90) \<or> (192 \<le> n \<and> n \<le> 222 \<and> n \<noteq> 215))"

definition toLowerCaseChar :: "char \<Rightarrow> char" where
  "toLowerCaseChar c =
     (if isUpperCase c
      then (case c of Char b0 b1 b2 b3 b4 b5 b6 b7 \<Rightarrow> Char b0 b1 b2 b3 b4 True b6 b7)
      else c)"

definition toLowerCase :: "string \<Rightarrow> string" where
  "toLowerCase s = map toLowerCaseChar s"

text \<open>\<open>s.split(c)\<close> for a one-character separator: never empty, \<open>''''.split(c) = ['''']\<close>.\<close>

fun split :: "char \<Rightarrow> string \<Rightarrow> string list" where
  "split c [] = [[]]"
| "split c (x # xs) =
     (if x = c then [] # split c xs
      else (case split c xs of
              [] \<Rightarrow> [[x]]
            | p # ps \<Rightarrow> (x # p) # ps))"

definition startsWith :: "string \<Rightarrow> string \<Rightarrow> bool" where
  "startsWith s p = (take (length p) s = p)"

section \<open>Rules (rules.ts)\<close>

datatype SeverityLevel = Critical | High | Moderate | Low | Info

datatype RuleType = Standard | DataFlow | Flow | UnexpectedError

text \<open>The numeric value of a severity (\<open>Critical = 1\<close>, ..., \<open>Info = 5\<close>).\<close>

fun SeverityLevel_valueOf :: "SeverityLevel \<Rightarrow> nat" where
  "SeverityLevel_valueOf Critical = 1"
| "SeverityLevel_valueOf High = 2"
| "SeverityLevel_valueOf Moderate = 3"
| "SeverityLevel_valueOf Low = 4"
| "SeverityLevel_valueOf Info = 5"

text \<open>The reverse mapping of the enum, \<open>SeverityLevel[sevNumber]\<close>.\<close>

fun SeverityLevel_name :: "SeverityLevel \<Rightarrow> string" where
  "SeverityLevel_name Critical = ''Critical''"
| "SeverityLevel_name High = ''High''"
| "SeverityLevel_name Moderate = ''Moderate''"
| "SeverityLevel_name Low = ''Low''"
| "SeverityLevel_name Info = ''Info''"

text \<open>\<open>String(sevNumber)\<close> for the five values of the enum.\<close>

fun SeverityLevel_String :: "SeverityLevel \<Rightarrow> string" where
  "SeverityLevel_String Critical = ''1''"
| "SeverityLevel_String High = ''2''"
| "SeverityLevel_String Moderate = ''3''"
| "SeverityLevel_String Low = ''4''"
| "SeverityLevel_String Info = ''5''"

record RuleDescription =
  rd_name :: string
  rd_severityLevel :: SeverityLevel
  rd_type :: RuleType
  rd_tags :: "string list"
  rd_description :: string
  rd_resourceUrls :: "string list"

text \<open>
  The two implementations of the \<open>Rule\<close> interface: \<open>RuleImpl(engineName, ruleDesc)\<close> and
  \<open>UnexpectedEngineErrorRule(engineName)\<close>.
\<close>

datatype Rule =
    RuleImpl string RuleDescription
  | UnexpectedEngineErrorRule string

fun Rule_getEngineName :: "Rule \<Rightarrow> string" where
  "Rule_getEngineName (RuleImpl engineName ruleDesc) = engineName"
| "Rule_getEngineName (UnexpectedEngineErrorRule engineName) = engineName"

fun Rule_getName :: "Rule \<Rightarrow> string" where
  "Rule_getName (RuleImpl engineName ruleDesc) = rd_name ruleDesc"
| "Rule_getName (UnexpectedEngineErrorRule engineName) = ''UnexpectedEngineError''"

fun Rule_getResourceUrls :: "Rule \<Rightarrow> string list" where
  "Rule_getResourceUrls (RuleImpl engineName ruleDesc) = rd_resourceUrls ruleDesc"
| "Rule_getResourceUrls (UnexpectedEngineErrorRule engineName) = []"

fun Rule_getSeverityLevel :: "Rule \<Rightarrow> SeverityLevel" where
  "Rule_getSeverityLevel (RuleImpl engineName ruleDesc) = rd_severityLevel ruleDesc"
| "Rule_getSeverityLevel (UnexpectedEngineErrorRule engineName) = Critical"

fun Rule_getTags :: "Rule \<Rightarrow> string list" where
  "Rule_getTags (RuleImpl engineName ruleDesc) = rd_tags ruleDesc"
| "Rule_getTags (UnexpectedEngineErrorRule engineName) = []"

fun Rule_getType :: "Rule \<Rightarrow> RuleType" where
  "Rule_getType (RuleImpl engineName ruleDesc) = rd_type ruleDesc"
| "Rule_getType (UnexpectedEngineErrorRule engineName) = UnexpectedError"

text \<open>
  \<open>RuleImpl.matchesRuleSelector\<close>. The catalog \<open>allRules\<close> holds \<open>RuleImpl\<close> objects only, given
  here by their two fields.
\<close>

definition selectables :: "string \<Rightarrow> RuleDescription \<Rightarrow> string list" where
  "selectables engineName ruleDesc =
     [''all'',
      toLowerCase engineName,
      toLowerCase (rd_name ruleDesc),
      toLowerCase (SeverityLevel_name (rd_severityLevel ruleDesc)),
      SeverityLevel_String (rd_severityLevel ruleDesc)]
     @ map toLowerCase (rd_tags ruleDesc)"

fun allPartsMatched :: "string list \<Rightarrow> string list \<Rightarrow> bool" where
  "allPartsMatched sel [] = True"
| "allPartsMatched sel (selectorPart # rest) =
     (let partMatched = list_ex (\<lambda>s. s = selectorPart) sel
      in if \<not> partMatched then False else allPartsMatched sel rest)"

definition matchesRuleSelector :: "string \<times> RuleDescription \<Rightarrow> string \<Rightarrow> bool" where
  "matchesRuleSelector rule ruleSelector =
     allPartsMatched (selectables (fst rule) (snd rule))
       (split (CHR '':'') (toLowerCase ruleSelector))"

text \<open>
  \<open>RuleSelectionImpl\<close>: the \<open>ruleMap\<close> is a \<open>Map\<close>, whose keys are listed in the order of their
  first insertion; an association list with distinct keys in that order.
\<close>

type_synonym RuleSelection = "(string \<times> Rule list) list"

definition RuleSelection_has :: "RuleSelection \<Rightarrow> string \<Rightarrow> bool" where
  "RuleSelection_has ruleMap engineName = (map_of ruleMap engineName \<noteq> None)"

fun pushRule :: "RuleSelection \<Rightarrow> string \<Rightarrow> Rule \<Rightarrow> RuleSelection" where
  "pushRule [] engineName rule = []"
| "pushRule ((k, rules) # m) engineName rule =
     (if k = engineName then (k, rules @ [rule]) # m
      else (k, rules) # pushRule m engineName rule)"

definition addRule :: "RuleSelection \<Rightarrow> Rule \<Rightarrow> RuleSelection" where
  "addRule ruleMap rule =
     (let engineName = Rule_getEngineName rule;
          ruleMap1 = (if \<not> RuleSelection_has ruleMap engineName
                      then ruleMap @ [(engineName, [])] else ruleMap)
      in pushRule ruleMap1 engineName rule)"

definition getEngineNames :: "RuleSelection \<Rightarrow> string list" where
  "getEngineNames ruleMap = map fst ruleMap"

definition getRulesFor :: "RuleSelection \<Rightarrow> string \<Rightarrow> Rule list" where
  "getRulesFor ruleMap engineName =
     (case map_of ruleMap engineName of None \<Rightarrow> [] | Some rules \<Rightarrow> rules)"

definition getCount :: "RuleSelection \<Rightarrow> nat" where
  "getCount ruleMap = sum_list (map (\<lambda>(k, rules). length rules) ruleMap)"

text \<open>\<open>CodeAnalyzer.selectRules\<close>, on the catalog \<open>allRules\<close>.\<close>

fun selectLoop :: "RuleSelection \<Rightarrow> string list \<Rightarrow> (string \<times> RuleDescription) list \<Rightarrow> RuleSelection" where
  "selectLoop ruleSelection selectors [] = ruleSelection"
| "selectLoop ruleSelection selectors (rule # rest) =
     selectLoop
       (if list_ex (\<lambda>s. matchesRuleSelector rule s) selectors
        then addRule ruleSelection (RuleImpl (fst rule) (snd rule))
        else ruleSelection)
       selectors rest"

definition selectRules :: "(string \<times> RuleDescription) list \<Rightarrow> string list \<Rightarrow> RuleSelection" where
  "selectRules allRules selectors =
     (let selectors1 = (if length selectors > 0 then selectors else [''Recommended''])
      in selectLoop [] selectors1 allRules)"

section \<open>Numbers\<close>

text \<open>
  A JavaScript number is a double: a rational, \<open>NaN\<close> or an infinity. Only the order, equality
  and \<open>Number.isInteger\<close> are used on numbers that engines supply, and these are exact on the
  rationals.
\<close>

datatype number = Fin rat | NaN | PosInfinity | NegInfinity

text \<open>\<open>a <= b\<close>, \<open>a < b\<close> and \<open>a == b\<close>; every comparison with \<open>NaN\<close> is false.\<close>

fun number_le :: "number \<Rightarrow> number \<Rightarrow> bool" where
  "number_le (Fin a) (Fin b) = (a \<le> b)"
| "number_le (Fin a) PosInfinity = True"
| "number_le NegInfinity (Fin b) = True"
| "number_le NegInfinity NegInfinity = True"
| "number_le NegInfinity PosInfinity = True"
| "number_le PosInfinity PosInfinity = True"
| "number_le a b = False"

fun number_lt :: "number \<Rightarrow> number \<Rightarrow> bool" where
  "number_lt (Fin a) (Fin b) = (a < b)"
| "number_lt (Fin a) PosInfinity = True"
| "number_lt NegInfinity (Fin b) = True"
| "number_lt NegInfinity PosInfinity = True"
| "number_lt a b = False"

fun number_eq :: "number \<Rightarrow> number \<Rightarrow> bool" where
  "number_eq NaN b = False"
| "number_eq a NaN = False"
| "number_eq a b = (a = b)"

definition number_ge :: "number \<Rightarrow> number \<Rightarrow> bool" where
  "number_ge a b = number_le b a"

definition number_gt :: "number \<Rightarrow> number \<Rightarrow> bool" where
  "number_gt a b = number_lt b a"

fun Number_isInteger :: "number \<Rightarrow> bool" where
  "Number_isInteger (Fin r) = (rat_of_int \<lfloor>r\<rfloor> = r)"
| "Number_isInteger a = False"

text \<open>\<open>Number.MAX_VALUE\<close>, the largest double: \<open>(2^53 - 1) * 2^971\<close>.\<close>

definition MAX_VALUE :: number where
  "MAX_VALUE = Fin ((2 ^ 53 - 1) * 2 ^ 971)"

text \<open>The \<open>length\<close> of an array, as a number.\<close>

definition lengthOf :: "'a list \<Rightarrow> number" where
  "lengthOf xs = Fin (of_nat (length xs))"

text \<open>\<open>a - 1\<close> on a finite number.\<close>

fun minusOne :: "number \<Rightarrow> number" where
  "minusOne (Fin r) = Fin (r - 1)"
| "minusOne a = a"

definition isIntegerBetween :: "number \<Rightarrow> number \<Rightarrow> number \<Rightarrow> bool" where
  "isIntegerBetween value leftBound rightBound =
     (number_ge value leftBound \<and> number_le value rightBound \<and> Number_isInteger value)"

definition isValidLineOrColumn :: "number \<Rightarrow> bool" where
  "isValidLineOrColumn value = isIntegerBetween value (Fin 1) MAX_VALUE"

text \<open>\<open>xs[i]\<close> for a number \<open>i\<close>: \<open>undefined\<close> unless \<open>i\<close> is an integer index of \<open>xs\<close>.\<close>

fun elementAt :: "'a list \<Rightarrow> number \<Rightarrow> 'a option" where
  "elementAt xs (Fin r) =
     (if rat_of_int \<lfloor>r\<rfloor> = r \<and> 0 \<le> r \<and> nat \<lfloor>r\<rfloor> < length xs
      then Some (xs ! nat \<lfloor>r\<rfloor>) else None)"
| "elementAt xs a = None"

section \<open>The message catalog (messages.ts)\<close>

datatype json =
    JNull
  | JBool bool
  | JNumber number
  | JString string
  | JArray "json list"
  | JObject "(string \<times> json) list"

text \<open>
  An argument of \<open>getMessage\<close> is a string or a number; \<open>J v\<close> is the string
  \<open>JSON.stringify(v)\<close>.
\<close>

datatype arg = S string | N number | J json

text \<open>
  \<open>Thrown m\<close> is an \<open>Error\<close> with message \<open>m\<close> that does not come from the orchestrator: a
  plugin, an engine, the file system or the JavaScript runtime raised it.
\<close>

datatype Thrown = Thrown string

fun Thrown_message :: "Thrown \<Rightarrow> string" where
  "Thrown_message (Thrown m) = m"

text \<open>
  What the platform provides: the path separator, \<open>path.resolve\<close>, \<open>process.cwd()\<close>, the file
  system, and the conversions \<open>String(n)\<close> of a number and \<open>JSON.stringify\<close>. Of the file system
  the orchestrator uses \<open>fs.existsSync\<close>, which never throws, and \<open>fs.statSync\<close>, which returns
  an \<open>fs.Stats\<close> object or throws (\<open>ENOENT\<close> for a path that does not exist); the two are given
  apart, as the code calls them on different names of a path and at different moments.
\<close>

record Stats =
  isDirectory :: bool
  isFile :: bool

record platform =
  sep :: char
  resolve :: "string \<Rightarrow> string"
  cwd :: string
  existsSync :: "string \<Rightarrow> bool"
  statSync :: "string \<Rightarrow> Thrown + Stats"
  String_number :: "number \<Rightarrow> string"
  JSON_stringify :: "json \<Rightarrow> string"

datatype MsgId =
    EngineFromFutureApiDetected
  | DuplicateEngine
  | EngineNameContradiction
  | EngineValidationFailed
  | UnexpectedEngineErrorRuleDescription
  | UnexpectedEngineErrorViolationMessage
  | PluginErrorFromGetAvailableEngineNames
  | PluginErrorFromCreateEngine
  | FailedToDynamicallyLoadModule
  | FailedToDynamicallyAddEnginePlugin
  | EngineAdded
  | ConfigFileDoesNotExist
  | ConfigFileExtensionUnsupported
  | ConfigContentFailedToParse
  | ConfigContentNotAnObject
  | ConfigValueMustBeOfType
  | ConfigValueNotAValidSeverityLevel
  | ConfigValueNotAValidStringArray
  | ConfigValueFolderMustExist
  | ConfigValueMustBeFolder
  | RulePropertyOverridden
  | FileOrFolderDoesNotExist
  | AtLeastOneFileOrFolderMustBeIncluded
  | PathStartPointFileDoesNotExist
  | PathStartPointWithMethodMustNotBeFolder
  | InvalidPathStartPoint
  | PathStartPointMustBeInsideWorkspace
  | RunningWithRunOptions
  | RunningEngineWithRules
  | RuleDoesNotExistInSelection
  | EngineRunResultsMissing
  | EngineReturnedMultipleRulesWithSameName
  | EngineReturnedViolationForUnselectedRule
  | EngineReturnedViolationWithInvalidPrimaryLocationIndex
  | EngineReturnedViolationWithCodeLocationFileThatDoesNotExist
  | EngineReturnedViolationWithCodeLocationFileAsFolder
  | EngineReturnedViolationWithCodeLocationWithInvalidLineOrColumn
  | EngineReturnedViolationWithCodeLocationWithEndLineBeforeStartLine
  | EngineReturnedViolationWithCodeLocationWithEndColumnBeforeStartColumnOnSameLine

fun messageCatalog :: "MsgId \<Rightarrow> string" where
  \<open>messageCatalog EngineFromFutureApiDetected =
     ''The following engines use the engine api version %d: %s.'' @ [CHR 0x0A] @ ''This version of Code Analyzer only has knowledge of the %d engine api.'' @ [CHR 0x0A] @ ''Therefore some capabilities from these engines may not fully work with this version of Code Analyzer.''\<close>
| \<open>messageCatalog DuplicateEngine =
     ''Failed to add engine with name "%s" because an engine with this name has already been added to Code Analyzer.''\<close>
| \<open>messageCatalog EngineNameContradiction =
     ''Failed to add engine with name "%s" because its getName() method returns a different name of "%s".''\<close>
| \<open>messageCatalog EngineValidationFailed =
     ''Failed to add engine with name "%s" because it failed validation:'' @ [CHR 0x0A] @ ''%s''\<close>
| \<open>messageCatalog UnexpectedEngineErrorRuleDescription =
     ''This rule reports a violation when an unexpected error occurs from engine "%s".''\<close>
| \<open>messageCatalog UnexpectedEngineErrorViolationMessage =
     ''The engine with name "%s" threw an unexpected error: %s''\<close>
| \<open>messageCatalog PluginErrorFromGetAvailableEngineNames =
     ''Failed to add engine plugin. The plugin'' @ [CHR 0x27] @ ''s getAvailableNames method threw an error:'' @ [CHR 0x0A] @ ''%s''\<close>
| \<open>messageCatalog PluginErrorFromCreateEngine =
     ''Failed to create engine with name "%s". The plugin'' @ [CHR 0x27] @ ''s createEngine method threw an error:'' @ [CHR 0x0A] @ ''%s''\<close>
| \<open>messageCatalog FailedToDynamicallyLoadModule =
     ''Failed to dynamically load module "%s". Error: %s''\<close>
| \<open>messageCatalog FailedToDynamicallyAddEnginePlugin =
     ''Failed to dynamically add engine plugin from module "%s" because the module does not seem to export a "createEnginePlugin" function.''\<close>
| \<open>messageCatalog EngineAdded =
     ''Engine with name "%s" was added to Code Analyzer.''\<close>
| \<open>messageCatalog ConfigFileDoesNotExist =
     ''The specified configuration file "%s" does not exist.''\<close>
| \<open>messageCatalog ConfigFileExtensionUnsupported =
     ''The specified configuration file "%s" has an unsupported file extension. Supported extensions are: %s''\<close>
| \<open>messageCatalog ConfigContentFailedToParse =
     ''Failed to parse the configuration content. Error:'' @ [CHR 0x0A] @ ''%s''\<close>
| \<open>messageCatalog ConfigContentNotAnObject =
     ''The configuration content is invalid since it is of type %s instead of type object.''\<close>
| \<open>messageCatalog ConfigValueMustBeOfType =
     ''The %s configuration value must be of type %s instead of type %s.''\<close>
| \<open>messageCatalog ConfigValueNotAValidSeverityLevel =
     ''The %s configuration value must be one of the following: %s. Instead received: %s''\<close>
| \<open>messageCatalog ConfigValueNotAValidStringArray =
     ''The %s configuration value must an array of strings. Instead received: %s''\<close>
| \<open>messageCatalog ConfigValueFolderMustExist =
     ''The folder specified by the %s configuration value does not exist: %s''\<close>
| \<open>messageCatalog ConfigValueMustBeFolder =
     ''The %s configuration value is not a folder: %s''\<close>
| \<open>messageCatalog RulePropertyOverridden =
     ''The %s value of rule "%s" of engine "%s" was overridden according to the specified configuration. The old value of %s was replaced with the new value of %s.''\<close>
| \<open>messageCatalog FileOrFolderDoesNotExist =
     ''The file or folder "%s" does not exist.''\<close>
| \<open>messageCatalog AtLeastOneFileOrFolderMustBeIncluded =
     ''At least one file or folder must be included.''\<close>
| \<open>messageCatalog PathStartPointFileDoesNotExist =
     ''The value "%s" is not a valid path starting point since the file "%s" does not exist.''\<close>
| \<open>messageCatalog PathStartPointWithMethodMustNotBeFolder =
     ''The value "%s" is not a valid path starting point since "%s" is a folder instead of a file.''\<close>
| \<open>messageCatalog InvalidPathStartPoint =
     ''The value "%s" is not a valid path starting point. Expected value to be of the format "<fileOrFolder>", "<file>#<methodName>", or "<file>#<methodName1>;<methodName2>;...".''\<close>
| \<open>messageCatalog PathStartPointMustBeInsideWorkspace =
     ''The specified path starting point of "%s" does not that exists underneath any of the specified paths: %s''\<close>
| \<open>messageCatalog RunningWithRunOptions =
     ''Running with the following run options: %s''\<close>
| \<open>messageCatalog RunningEngineWithRules =
     ''Running engine "%s" with the following rules: %s''\<close>
| \<open>messageCatalog RuleDoesNotExistInSelection =
     ''No rule with name "%s" and engine "%s" exists among the selected rules.''\<close>
| \<open>messageCatalog EngineRunResultsMissing =
     ''Could to get results for engine "%s" since they are missing from the overall run results. Most likely the engine did not run.''\<close>
| \<open>messageCatalog EngineReturnedMultipleRulesWithSameName =
     ''Engine failure. The engine "%s" returned more than one rule with the name "%s".''\<close>
| \<open>messageCatalog EngineReturnedViolationForUnselectedRule =
     ''Engine failure. The engine "%s" returned a violation for rule "%s" which was not selected.''\<close>
| \<open>messageCatalog EngineReturnedViolationWithInvalidPrimaryLocationIndex =
     ''Engine failure. The engine "%s" returned a violation for rule "%s" that contains an out of bounds primary location index value of %d. Expected a non-negative integer that is less than %d.''\<close>
| \<open>messageCatalog EngineReturnedViolationWithCodeLocationFileThatDoesNotExist =
     ''Engine failure. The engine "%s" returned a violation for rule "%s" that contains a code location with a file that does not exist: %s''\<close>
| \<open>messageCatalog EngineReturnedViolationWithCodeLocationFileAsFolder =
     ''Engine failure. The engine "%s" returned a violation for rule "%s" that contains a code location with a folder instead of a file: %s''\<close>
| \<open>messageCatalog EngineReturnedViolationWithCodeLocationWithInvalidLineOrColumn =
     ''Engine failure. The engine "%s" returned a violation for rule "%s" that contains a code location with an invalid %s value: %d''\<close>
| \<open>messageCatalog EngineReturnedViolationWithCodeLocationWithEndLineBeforeStartLine =
     ''Engine failure. The engine "%s" returned a violation for rule "%s" that contains a code location with the endLine %d before the startLine %d.''\<close>
| \<open>messageCatalog EngineReturnedViolationWithCodeLocationWithEndColumnBeforeStartColumnOnSameLine =
     ''Engine failure. The engine "%s" returned a violation for rule "%s" that contains a code location with the endLine equal to the startLine and the endColumn %d before the startColumn %d.''\<close>

text \<open>\<open>String(arg)\<close>.\<close>

fun String_arg :: "platform \<Rightarrow> arg \<Rightarrow> string" where
  "String_arg pf (S s) = s"
| "String_arg pf (N n) = String_number pf n"
| "String_arg pf (J v) = JSON_stringify pf v"

text \<open>
  \<open>messageTemplate.replace(/%[sd]/g, ...)\<close>: every marker is replaced by the next argument,
  or left as it is when the arguments have run out; the result and \<open>replaceCount\<close>.
\<close>

fun replaceMarkers :: "string \<Rightarrow> string list \<Rightarrow> string \<times> nat" where
  "replaceMarkers [] args = ([], 0)"
| "replaceMarkers [c] args = ([c], 0)"
| "replaceMarkers (c # d # cs) args =
     (if c = CHR ''%'' \<and> (d = CHR ''s'' \<or> d = CHR ''d'')
      then (case replaceMarkers cs (tl args) of
              (m, n) \<Rightarrow> ((case args of [] \<Rightarrow> [c, d] | a # as \<Rightarrow> a) @ m, Suc n))
      else (case replaceMarkers (d # cs) args of (m, n) \<Rightarrow> (c # m, n)))"

text \<open>
  The identifiers of the catalog are a datatype, so the error for an unknown identifier has
  no counterpart; the other error of \<open>getMessage\<close> is \<open>IncorrectLengthOfArgs\<close>, with the
  identifier, the expected and the actual length.
\<close>

datatype MsgError = IncorrectLengthOfArgs MsgId nat nat

definition getMessage :: "platform \<Rightarrow> MsgId \<Rightarrow> arg list \<Rightarrow> MsgError + string" where
  "getMessage pf msgId args =
     (let argsLength = length args
      in case replaceMarkers (messageCatalog msgId) (map (String_arg pf) args) of
           (message, replaceCount) \<Rightarrow>
             if replaceCount \<noteq> argsLength
             then Inl (IncorrectLengthOfArgs msgId replaceCount argsLength)
             else Inr message)"

text \<open>
  The exceptions that leave a function of the orchestrator. \<open>Failure msgId args\<close> is
  \<open>new Error(getMessage(msgId, ...args))\<close>, raised by the orchestrator; \<open>Propagated e\<close> is a
  foreign exception that the orchestrator lets through.
\<close>

datatype Failure = Failure MsgId "arg list" | Propagated Thrown

section \<open>The engine API (engine-api)\<close>

record ApiCodeLocation =
  cl_file :: string
  cl_startLine :: number
  cl_startColumn :: number
  cl_endLine :: "number option"
  cl_endColumn :: "number option"

record ApiViolation =
  v_ruleName :: string
  v_message :: string
  v_codeLocations :: "ApiCodeLocation list"
  v_primaryLocationIndex :: number
  v_resourceUrls :: "string list option"

record ApiEngineRunResults =
  violations :: "ApiViolation list"

record PathPoint =
  pp_file :: string
  pp_methodName :: "string option"

record EngineRunOptions =
  workspaceFiles :: "string list"
  pathStartPoints :: "PathPoint list option"

type_synonym ConfigObject = "(string \<times> json) list"

text \<open>
  An engine, by what its methods return or throw: \<open>validate\<close> throws or not, \<open>describeRules\<close>
  and \<open>runRules\<close> throw or return. The events that an engine emits of its own accord, which
  the orchestrator forwards to its subscribers, are not part of the model.
\<close>

record Engine =
  eng_getName :: string
  eng_validate :: "Thrown option"
  eng_describeRules :: "Thrown + RuleDescription list"
  eng_runRules :: "string list \<Rightarrow> EngineRunOptions \<Rightarrow> Thrown + ApiEngineRunResults"

record EnginePlugin =
  pl_getApiVersion :: number
  pl_getAvailableEngineNames :: "Thrown + string list"
  pl_createEngine :: "string \<Rightarrow> ConfigObject \<Rightarrow> Thrown + Engine"

definition ENGINE_API_VERSION :: number where
  "ENGINE_API_VERSION = Fin 1"

section \<open>Configuration (config.ts)\<close>

record RuleOverride =
  ov_severity :: "SeverityLevel option"
  ov_tags :: "string list option"

record CodeAnalyzerConfig =
  cfg_rules :: "string \<Rightarrow> (string \<Rightarrow> RuleOverride option) option"
  cfg_engines :: "string \<Rightarrow> ConfigObject option"

definition getRuleOverridesFor :: "CodeAnalyzerConfig \<Rightarrow> string \<Rightarrow> (string \<Rightarrow> RuleOverride option)" where
  "getRuleOverridesFor cfg engineName =
     (case cfg_rules cfg engineName of None \<Rightarrow> (\<lambda>ruleName. None) | Some overrides \<Rightarrow> overrides)"

definition getRuleOverrideFor :: "CodeAnalyzerConfig \<Rightarrow> string \<Rightarrow> string \<Rightarrow> RuleOverride" where
  "getRuleOverrideFor cfg engineName ruleName =
     (case getRuleOverridesFor cfg engineName ruleName of
        None \<Rightarrow> \<lparr>ov_severity = None, ov_tags = None\<rparr>
      | Some ruleOverride \<Rightarrow> ruleOverride)"

definition getEngineConfigFor :: "CodeAnalyzerConfig \<Rightarrow> string \<Rightarrow> ConfigObject" where
  "getEngineConfigFor cfg engineName =
     (case cfg_engines cfg engineName of None \<Rightarrow> [] | Some engConf \<Rightarrow> engConf)"

section \<open>Results (results.ts)\<close>

datatype CodeLocation = CodeLocationImpl ApiCodeLocation | UndefinedCodeLocation

definition toAbsolutePath :: "platform \<Rightarrow> string \<Rightarrow> string" where
  "toAbsolutePath pf fileOrFolder =
     resolve pf (map (\<lambda>c. if c = CHR 0x5C \<or> c = CHR ''/'' then sep pf else c) fileOrFolder)"

fun CodeLocation_getFile :: "platform \<Rightarrow> CodeLocation \<Rightarrow> string option" where
  "CodeLocation_getFile pf (CodeLocationImpl l) = Some (toAbsolutePath pf (cl_file l))"
| "CodeLocation_getFile pf UndefinedCodeLocation = None"

fun CodeLocation_getStartLine :: "CodeLocation \<Rightarrow> number option" where
  "CodeLocation_getStartLine (CodeLocationImpl l) = Some (cl_startLine l)"
| "CodeLocation_getStartLine UndefinedCodeLocation = None"

fun CodeLocation_getStartColumn :: "CodeLocation \<Rightarrow> number option" where
  "CodeLocation_getStartColumn (CodeLocationImpl l) = Some (cl_startColumn l)"
| "CodeLocation_getStartColumn UndefinedCodeLocation = None"

fun CodeLocation_getEndLine :: "CodeLocation \<Rightarrow> number option" where
  "CodeLocation_getEndLine (CodeLocationImpl l) = cl_endLine l"
| "CodeLocation_getEndLine UndefinedCodeLocation = None"

fun CodeLocation_getEndColumn :: "CodeLocation \<Rightarrow> number option" where
  "CodeLocation_getEndColumn (CodeLocationImpl l) =
     (if CodeLocation_getEndLine (CodeLocationImpl l) = None then None else cl_endColumn l)"
| "CodeLocation_getEndColumn UndefinedCodeLocation = None"

text \<open>
  The two implementations of \<open>Violation\<close>: \<open>ViolationImpl(apiViolation, rule)\<close> and
  \<open>UnexpectedEngineErrorViolation(engineName, error)\<close>.
\<close>

datatype Violation =
    ViolationImpl ApiViolation Rule
  | UnexpectedEngineErrorViolation string Thrown

fun Violation_getRule :: "Violation \<Rightarrow> Rule" where
  "Violation_getRule (ViolationImpl apiViolation rule) = rule"
| "Violation_getRule (UnexpectedEngineErrorViolation engineName error) =
     UnexpectedEngineErrorRule engineName"

fun Violation_getMessage :: "platform \<Rightarrow> Violation \<Rightarrow> MsgError + string" where
  "Violation_getMessage pf (ViolationImpl apiViolation rule) = Inr (v_message apiViolation)"
| "Violation_getMessage pf (UnexpectedEngineErrorViolation engineName error) =
     getMessage pf UnexpectedEngineErrorViolationMessage [S engineName, S (Thrown_message error)]"

fun Violation_getCodeLocations :: "Violation \<Rightarrow> CodeLocation list" where
  "Violation_getCodeLocations (ViolationImpl apiViolation rule) =
     map CodeLocationImpl (v_codeLocations apiViolation)"
| "Violation_getCodeLocations (UnexpectedEngineErrorViolation engineName error) =
     [UndefinedCodeLocation]"

fun Violation_getPrimaryLocationIndex :: "Violation \<Rightarrow> number" where
  "Violation_getPrimaryLocationIndex (ViolationImpl apiViolation rule) =
     v_primaryLocationIndex apiViolation"
| "Violation_getPrimaryLocationIndex (UnexpectedEngineErrorViolation engineName error) = Fin 0"

text \<open>\<open>urls.includes(url)\<close>: strict equality of strings.\<close>

definition Array_includes :: "string list \<Rightarrow> string \<Rightarrow> bool" where
  "Array_includes urls url = list_ex (\<lambda>u. u = url) urls"

fun Violation_getResourceUrls :: "Violation \<Rightarrow> string list" where
  "Violation_getResourceUrls (ViolationImpl apiViolation rule) =
     (let urls = Rule_getResourceUrls rule
      in case v_resourceUrls apiViolation of
           None \<Rightarrow> urls
         | Some violationUrls \<Rightarrow> urls @ filter (\<lambda>url. \<not> Array_includes urls url) violationUrls)"
| "Violation_getResourceUrls (UnexpectedEngineErrorViolation engineName error) = []"

text \<open>\<open>RuleSelectionImpl.getRule\<close>.\<close>

definition getRule :: "RuleSelection \<Rightarrow> string \<Rightarrow> string \<Rightarrow> Failure + Rule" where
  "getRule ruleMap engineName ruleName =
     (case find (\<lambda>rule. Rule_getName rule = ruleName) (getRulesFor ruleMap engineName) of
        Some rule \<Rightarrow> Inr rule
      | None \<Rightarrow> Inl (Failure RuleDoesNotExistInSelection [S ruleName, S engineName]))"

text \<open>
  The two implementations of \<open>EngineRunResults\<close>:
  \<open>EngineRunResultsImpl(engineName, apiEngineRunResults, ruleSelection)\<close> and
  \<open>UnexpectedErrorEngineRunResults(engineName, error)\<close>, whose one violation is
  \<open>new UnexpectedEngineErrorViolation(engineName, error)\<close>.
\<close>

datatype EngineRunResults =
    EngineRunResultsImpl string ApiEngineRunResults RuleSelection
  | UnexpectedErrorEngineRunResults string Thrown

fun EngineRunResults_getEngineName :: "EngineRunResults \<Rightarrow> string" where
  "EngineRunResults_getEngineName (EngineRunResultsImpl engineName api ruleSelection) = engineName"
| "EngineRunResults_getEngineName (UnexpectedErrorEngineRunResults engineName error) = engineName"

fun EngineRunResults_getViolationCount :: "EngineRunResults \<Rightarrow> nat" where
  "EngineRunResults_getViolationCount (EngineRunResultsImpl engineName api ruleSelection) =
     length (violations api)"
| "EngineRunResults_getViolationCount (UnexpectedErrorEngineRunResults engineName error) = 1"

text \<open>\<open>xs.map(f)\<close> for an \<open>f\<close> that may throw: the first exception ends the loop.\<close>

fun mapThrowing :: "('a \<Rightarrow> 'e + 'b) \<Rightarrow> 'a list \<Rightarrow> 'e + 'b list" where
  "mapThrowing f [] = Inr []"
| "mapThrowing f (x # xs) =
     (case f x of
        Inl e \<Rightarrow> Inl e
      | Inr y \<Rightarrow> (case mapThrowing f xs of Inl e \<Rightarrow> Inl e | Inr ys \<Rightarrow> Inr (y # ys)))"

fun EngineRunResults_getViolations :: "EngineRunResults \<Rightarrow> Failure + Violation list" where
  "EngineRunResults_getViolations (EngineRunResultsImpl engineName api ruleSelection) =
     mapThrowing
       (\<lambda>v. case getRule ruleSelection engineName (v_ruleName v) of
               Inl e \<Rightarrow> Inl e
             | Inr rule \<Rightarrow> Inr (ViolationImpl v rule))
       (violations api)"
| "EngineRunResults_getViolations (UnexpectedErrorEngineRunResults engineName error) =
     Inr [UnexpectedEngineErrorViolation engineName error]"

fun EngineRunResults_getViolationCountOfSeverity :: "EngineRunResults \<Rightarrow> SeverityLevel \<Rightarrow> Failure + nat" where
  "EngineRunResults_getViolationCountOfSeverity (EngineRunResultsImpl engineName api ruleSelection) severity =
     (case EngineRunResults_getViolations (EngineRunResultsImpl engineName api ruleSelection) of
        Inl e \<Rightarrow> Inl e
      | Inr vs \<Rightarrow>
          Inr (length (filter (\<lambda>v. Rule_getSeverityLevel (Violation_getRule v) = severity) vs)))"
| "EngineRunResults_getViolationCountOfSeverity (UnexpectedErrorEngineRunResults engineName error) severity =
     Inr (if severity = Critical then 1 else 0)"

text \<open>
  \<open>RunResultsImpl\<close>: the run directory and the \<open>Map\<close> from engine names to their results, in
  the order of first insertion.
\<close>

record RunResults =
  runDir :: string
  engineRunResultsMap :: "(string \<times> EngineRunResults) list"

text \<open>\<open>Map.set\<close>: a new key goes to the end, a known key keeps its place.\<close>

fun Map_set :: "('k \<times> 'v) list \<Rightarrow> 'k \<Rightarrow> 'v \<Rightarrow> ('k \<times> 'v) list" where
  "Map_set [] k v = [(k, v)]"
| "Map_set ((k', v') # m) k v =
     (if k' = k then (k, v) # m else (k', v') # Map_set m k v)"

definition addEngineRunResults :: "RunResults \<Rightarrow> EngineRunResults \<Rightarrow> RunResults" where
  "addEngineRunResults runResults engineRunResults =
     runResults\<lparr>engineRunResultsMap :=
       Map_set (engineRunResultsMap runResults)
         (EngineRunResults_getEngineName engineRunResults) engineRunResults\<rparr>"

definition RunResults_getEngineNames :: "RunResults \<Rightarrow> string list" where
  "RunResults_getEngineNames runResults = map fst (engineRunResultsMap runResults)"

definition getEngineRunResults :: "RunResults \<Rightarrow> string \<Rightarrow> Failure + EngineRunResults" where
  "getEngineRunResults runResults engineName =
     (case map_of (engineRunResultsMap runResults) engineName of
        None \<Rightarrow> Inl (Failure EngineRunResultsMissing [S engineName])
      | Some engineRunResults \<Rightarrow> Inr engineRunResults)"

definition RunResults_getViolations :: "RunResults \<Rightarrow> Failure + Violation list" where
  "RunResults_getViolations runResults =
     (case mapThrowing EngineRunResults_getViolations (map snd (engineRunResultsMap runResults)) of
        Inl e \<Rightarrow> Inl e
      | Inr vss \<Rightarrow> Inr (concat vss))"

definition RunResults_getViolationCount :: "RunResults \<Rightarrow> nat" where
  "RunResults_getViolationCount runResults =
     sum_list (map (\<lambda>(k, r). EngineRunResults_getViolationCount r) (engineRunResultsMap runResults))"

section \<open>Events (events.ts)\<close>

datatype LogLevel = LogError | LogWarn | LogInfo | LogDebug | LogFine

text \<open>
  The events that the orchestrator itself emits. A log event is given by the identifier and
  the arguments of the \<open>getMessage\<close> call that makes its message. Time stamps (read from the
  injected clock) are left out.
\<close>

datatype Event =
    LogEvent LogLevel MsgId "arg list"
  | EngineProgressEvent string number
  | EngineResultsEvent EngineRunResults

section \<open>The orchestrator (code-analyzer.ts)\<close>

text \<open>
  The fields of \<open>CodeAnalyzer\<close>; \<open>engines\<close> is a \<open>Map\<close> in insertion order, \<open>emitted\<close> is the
  sequence of events handed to the event emitter so far, oldest first.
\<close>

record CodeAnalyzer =
  config :: CodeAnalyzerConfig
  engines :: "(string \<times> Engine) list"
  allRules :: "(string \<times> RuleDescription) list"
  emitted :: "Event list"

definition emitEvent :: "CodeAnalyzer \<Rightarrow> Event \<Rightarrow> CodeAnalyzer" where
  "emitEvent ca event = ca\<lparr>emitted := emitted ca @ [event]\<rparr>"

definition emitLogEvent :: "CodeAnalyzer \<Rightarrow> LogLevel \<Rightarrow> MsgId \<Rightarrow> arg list \<Rightarrow> CodeAnalyzer" where
  "emitLogEvent ca logLevel msgId args = emitEvent ca (LogEvent logLevel msgId args)"

definition getEngine :: "CodeAnalyzer \<Rightarrow> string \<Rightarrow> Engine option" where
  "getEngine ca engineName = map_of (engines ca) engineName"

definition addEngineIfValid :: "CodeAnalyzer \<Rightarrow> string \<Rightarrow> Engine \<Rightarrow> CodeAnalyzer" where
  "addEngineIfValid ca engineName engine =
     (if map_of (engines ca) engineName \<noteq> None
      then emitLogEvent ca LogError DuplicateEngine [S engineName]
      else if engineName \<noteq> eng_getName engine
      then emitLogEvent ca LogError EngineNameContradiction [S engineName, S (eng_getName engine)]
      else (case eng_validate engine of
              Some err \<Rightarrow>
                emitLogEvent ca LogError EngineValidationFailed [S engineName, S (Thrown_message err)]
            | None \<Rightarrow>
                emitLogEvent (ca\<lparr>engines := Map_set (engines ca) engineName engine\<rparr>)
                  LogDebug EngineAdded [S engineName]))"

definition getAvailableEngineNamesFromPlugin :: "EnginePlugin \<Rightarrow> Failure + string list" where
  "getAvailableEngineNamesFromPlugin enginePlugin =
     (case pl_getAvailableEngineNames enginePlugin of
        Inl err \<Rightarrow> Inl (Failure PluginErrorFromGetAvailableEngineNames [S (Thrown_message err)])
      | Inr names \<Rightarrow> Inr names)"

definition createEngineFromPlugin :: "EnginePlugin \<Rightarrow> string \<Rightarrow> ConfigObject \<Rightarrow> Failure + Engine" where
  "createEngineFromPlugin enginePlugin engineName engConf =
     (case pl_createEngine enginePlugin engineName engConf of
        Inl err \<Rightarrow> Inl (Failure PluginErrorFromCreateEngine [S engineName, S (Thrown_message err)])
      | Inr engine \<Rightarrow> Inr engine)"

fun validateRuleDescriptionsLoop :: "string list \<Rightarrow> RuleDescription list \<Rightarrow> string \<Rightarrow> Failure + unit" where
  "validateRuleDescriptionsLoop ruleNamesSeen [] engineName = Inr ()"
| "validateRuleDescriptionsLoop ruleNamesSeen (ruleDescription # rest) engineName =
     (if rd_name ruleDescription \<in> set ruleNamesSeen
      then Inl (Failure EngineReturnedMultipleRulesWithSameName
                  [S engineName, S (rd_name ruleDescription)])
      else validateRuleDescriptionsLoop (rd_name ruleDescription # ruleNamesSeen) rest engineName)"

definition validateRuleDescriptions :: "RuleDescription list \<Rightarrow> string \<Rightarrow> Failure + unit" where
  "validateRuleDescriptions ruleDescriptions engineName =
     validateRuleDescriptionsLoop [] ruleDescriptions engineName"

definition severityNumber :: "SeverityLevel \<Rightarrow> number" where
  "severityNumber severity = Fin (of_nat (SeverityLevel_valueOf severity))"

definition updateRuleDescriptionWithOverrides ::
    "CodeAnalyzer \<Rightarrow> string \<Rightarrow> RuleDescription \<Rightarrow> CodeAnalyzer \<times> RuleDescription" where
  "updateRuleDescriptionWithOverrides ca engineName ruleDescription =
     (let ruleOverride = getRuleOverrideFor (config ca) engineName (rd_name ruleDescription);
          (ca1, ruleDescription1) =
            (case ov_severity ruleOverride of
               Some severity \<Rightarrow>
                 (emitLogEvent ca LogDebug RulePropertyOverridden
                    [S ''severity'', S (rd_name ruleDescription), S engineName,
                     N (severityNumber (rd_severityLevel ruleDescription)),
                     N (severityNumber severity)],
                  ruleDescription\<lparr>rd_severityLevel := severity\<rparr>)
             | None \<Rightarrow> (ca, ruleDescription))
      in case ov_tags ruleOverride of
           Some tags \<Rightarrow>
             (emitLogEvent ca1 LogDebug RulePropertyOverridden
                [S ''tags'', S (rd_name ruleDescription1), S engineName,
                 J (JArray (map JString (rd_tags ruleDescription1))),
                 J (JArray (map JString tags))],
              ruleDescription1\<lparr>rd_tags := tags\<rparr>)
         | None \<Rightarrow> (ca1, ruleDescription1))"

text \<open>The inner loop of \<open>addEnginePlugin\<close>, over the rule descriptions of one engine.\<close>

fun cacheRules :: "CodeAnalyzer \<Rightarrow> string \<Rightarrow> RuleDescription list \<Rightarrow> CodeAnalyzer" where
  "cacheRules ca engineName [] = ca"
| "cacheRules ca engineName (ruleDescription # rest) =
     (case updateRuleDescriptionWithOverrides ca engineName ruleDescription of
        (ca1, ruleDescription1) \<Rightarrow>
          cacheRules (ca1\<lparr>allRules := allRules ca1 @ [(engineName, ruleDescription1)]\<rparr>)
            engineName rest)"

text \<open>
  The outer loop of \<open>addEnginePlugin\<close>, over the engine names of the plugin. The result is
  the state of the orchestrator when the call ends and the exception that ended it, if any.
\<close>

fun addEngines :: "CodeAnalyzer \<Rightarrow> EnginePlugin \<Rightarrow> string list \<Rightarrow> CodeAnalyzer \<times> Failure option" where
  "addEngines ca enginePlugin [] = (ca, None)"
| "addEngines ca enginePlugin (engineName # rest) =
     (let engConf = getEngineConfigFor (config ca) engineName
      in case createEngineFromPlugin enginePlugin engineName engConf of
           Inl e \<Rightarrow> (ca, Some e)
         | Inr engine \<Rightarrow>
             (let ca1 = addEngineIfValid ca engineName engine
              in case eng_describeRules engine of
                   Inl err \<Rightarrow> (ca1, Some (Propagated err))
                 | Inr ruleDescriptions \<Rightarrow>
                     (case validateRuleDescriptions ruleDescriptions engineName of
                        Inl e \<Rightarrow> (ca1, Some e)
                      | Inr u \<Rightarrow>
                          addEngines (cacheRules ca1 engineName ruleDescriptions)
                            enginePlugin rest)))"

text \<open>\<open>names.join(s)\<close>.\<close>

fun join :: "string list \<Rightarrow> string \<Rightarrow> string" where
  "join [] s = []"
| "join [x] s = x"
| "join (x # y # xs) s = x @ s @ join (y # xs) s"

definition addEnginePlugin :: "CodeAnalyzer \<Rightarrow> EnginePlugin \<Rightarrow> CodeAnalyzer \<times> Failure option" where
  \<open>addEnginePlugin ca enginePlugin =
     (case (if number_gt (pl_getApiVersion enginePlugin) ENGINE_API_VERSION
            then (case pl_getAvailableEngineNames enginePlugin of
                    Inl err \<Rightarrow> Inl (Propagated err)
                  | Inr names \<Rightarrow>
                      Inr (emitLogEvent ca LogWarn EngineFromFutureApiDetected
                             [N (pl_getApiVersion enginePlugin),
                              S (''"'' @ join names ''","'' @ ''"''),
                              N ENGINE_API_VERSION]))
            else Inr ca) of
        Inl e \<Rightarrow> (ca, Some e)
      | Inr ca1 \<Rightarrow>
          (case getAvailableEngineNamesFromPlugin enginePlugin of
             Inl e \<Rightarrow> (ca1, Some e)
           | Inr names \<Rightarrow> addEngines ca1 enginePlugin names))\<close>

subsection \<open>Run options\<close>

record RunOptions =
  ro_workspaceFiles :: "string list"
  ro_pathStartPoints :: "string list option"

text \<open>The loop of \<open>removeRedundantPaths\<close>; \<open>filteredPaths\<close> is the accumulator.\<close>

fun filterPaths :: "char \<Rightarrow> string list \<Rightarrow> string list \<Rightarrow> string list" where
  "filterPaths pathSep filteredPaths [] = filteredPaths"
| "filterPaths pathSep filteredPaths (currentPath # rest) =
     (let isAlreadyContained =
            list_ex (\<lambda>existingPath.
                       startsWith currentPath (existingPath @ [pathSep]) \<or> existingPath = currentPath)
              filteredPaths
      in filterPaths pathSep
           (if \<not> isAlreadyContained then filteredPaths @ [currentPath] else filteredPaths)
           rest)"

text \<open>
  \<open>Array.prototype.sort\<close> is stable; without a comparator it orders strings by their code
  units.
\<close>

definition removeRedundantPaths :: "char \<Rightarrow> string list \<Rightarrow> string list" where
  "removeRedundantPaths pathSep absolutePaths =
     (let pathsSortedByLength = sort_key length absolutePaths
      in sort (filterPaths pathSep [] pathsSortedByLength))"

definition validateFileOrFolder :: "platform \<Rightarrow> string \<Rightarrow> Failure + string" where
  "validateFileOrFolder pf fileOrFolder =
     (let absFileOrFolder = toAbsolutePath pf fileOrFolder
      in if \<not> existsSync pf fileOrFolder
         then Inl (Failure FileOrFolderDoesNotExist [S absFileOrFolder])
         else Inr absFileOrFolder)"

definition validatePathStartPointFile :: "platform \<Rightarrow> string \<Rightarrow> string \<Rightarrow> Failure + string" where
  "validatePathStartPointFile pf file pathStartPointStr =
     (let absFile = toAbsolutePath pf file
      in if \<not> existsSync pf absFile
         then Inl (Failure PathStartPointFileDoesNotExist [S pathStartPointStr, S absFile])
         else (case statSync pf absFile of
                 Inl error \<Rightarrow> Inl (Propagated error)
               | Inr stats \<Rightarrow>
                   if isDirectory stats
                   then Inl (Failure PathStartPointWithMethodMustNotBeFolder
                               [S pathStartPointStr, S absFile])
                   else Inr absFile))"

text \<open>The class \<open>\s\<close> of regular expressions, on code units below 256.\<close>

definition isWhiteSpace :: "char \<Rightarrow> bool" where
  "isWhiteSpace c = (of_char c \<in> {9, 10, 11, 12, 13, 32, 160 :: nat})"

definition isAsciiLetter :: "char \<Rightarrow> bool" where
  "isAsciiLetter c =
     (let n = (of_char c :: nat) in (65 \<le> n \<and> n \<le> 90) \<or> (97 \<le> n \<and> n \<le> 122))"

definition isAsciiDigit :: "char \<Rightarrow> bool" where
  "isAsciiDigit c = (let n = (of_char c :: nat) in 48 \<le> n \<and> n \<le> 57)"

text \<open>\<open>VALID_METHOD_NAME_REGEX.test(methodName)\<close>, for \<open>/^[A-Za-z][A-Za-z0-9_]*$/\<close>.\<close>

fun isValidMethodName :: "string \<Rightarrow> bool" where
  "isValidMethodName [] = False"
| "isValidMethodName (c # cs) =
     (isAsciiLetter c \<and> list_all (\<lambda>d. isAsciiLetter d \<or> isAsciiDigit d \<or> d = CHR ''_'') cs)"

text \<open>
  Whether the whole of a string matches \<open>\s+;*\<close>: one or more white space characters, then
  semicolons only.
\<close>

definition matchesSpacesThenSemicolons :: "string \<Rightarrow> bool" where
  "matchesSpacesThenSemicolons t =
     (takeWhile isWhiteSpace t \<noteq> [] \<and> list_all (\<lambda>c. c = CHR '';'') (dropWhile isWhiteSpace t))"

text \<open>
  \<open>s.replace(TRAILING_SPACES_AND_SEMICOLONS_REGEX, '')\<close> for \<open>/\s+;*$/\<close>: the leftmost place
  from which the rest of the string matches is where the string is cut.
\<close>

fun removeTrailingSpacesAndSemicolons :: "string \<Rightarrow> string" where
  "removeTrailingSpacesAndSemicolons [] = []"
| "removeTrailingSpacesAndSemicolons (c # cs) =
     (if matchesSpacesThenSemicolons (c # cs) then []
      else c # removeTrailingSpacesAndSemicolons cs)"

definition extractEnginePathStartPoints :: "platform \<Rightarrow> string \<Rightarrow> Failure + PathPoint list" where
  "extractEnginePathStartPoints pf pathStartPointStr =
     (let parts = split (CHR ''#'') pathStartPointStr
      in if length parts = 1
         then (case validateFileOrFolder pf pathStartPointStr of
                 Inl e \<Rightarrow> Inl e
               | Inr file \<Rightarrow> Inr [\<lparr>pp_file = file, pp_methodName = None\<rparr>])
         else if length parts > 2
         then Inl (Failure InvalidPathStartPoint [S pathStartPointStr])
         else (case validatePathStartPointFile pf (parts ! 0) pathStartPointStr of
                 Inl e \<Rightarrow> Inl e
               | Inr pathStartPointFile \<Rightarrow>
                   (let methodNames = removeTrailingSpacesAndSemicolons (parts ! 1)
                    in mapThrowing
                         (\<lambda>methodName.
                            if \<not> isValidMethodName methodName
                            then Inl (Failure InvalidPathStartPoint [S pathStartPointStr])
                            else Inr \<lparr>pp_file = pathStartPointFile,
                                      pp_methodName = Some methodName\<rparr>)
                         (split (CHR '';'') methodNames))))"

text \<open>
  \<open>filesOrFolders.some(...)\<close>: the elements are tried in order up to the first that satisfies
  the test. \<open>fs.statSync\<close> is called for an element that is not the file itself, and what it
  throws leaves the function.
\<close>

fun fileIsUnderneath :: "platform \<Rightarrow> string \<Rightarrow> string list \<Rightarrow> Thrown + bool" where
  "fileIsUnderneath pf file [] = Inr False"
| "fileIsUnderneath pf file (fileOrFolder # rest) =
     (if fileOrFolder = file then Inr True
      else (case statSync pf fileOrFolder of
              Inl error \<Rightarrow> Inl error
            | Inr stats \<Rightarrow>
                if isDirectory stats \<and> startsWith file fileOrFolder then Inr True
                else fileIsUnderneath pf file rest))"

fun pathStartPointsInsideWorkspaceLoop :: "platform \<Rightarrow> EngineRunOptions \<Rightarrow> PathPoint list \<Rightarrow> Failure + unit" where
  "pathStartPointsInsideWorkspaceLoop pf engineRunOptions [] = Inr ()"
| "pathStartPointsInsideWorkspaceLoop pf engineRunOptions (enginePathStartPoint # rest) =
     (case fileIsUnderneath pf (pp_file enginePathStartPoint) (workspaceFiles engineRunOptions) of
        Inl error \<Rightarrow> Inl (Propagated error)
      | Inr underneath \<Rightarrow>
          if \<not> underneath
          then Inl (Failure PathStartPointMustBeInsideWorkspace
                      [S (pp_file enginePathStartPoint),
                       J (JArray (map JString (workspaceFiles engineRunOptions)))])
          else pathStartPointsInsideWorkspaceLoop pf engineRunOptions rest)"

definition validatePathStartPointsAreInsideWorkspace :: "platform \<Rightarrow> EngineRunOptions \<Rightarrow> Failure + unit" where
  "validatePathStartPointsAreInsideWorkspace pf engineRunOptions =
     (case pathStartPoints engineRunOptions of
        None \<Rightarrow> Inr ()
      | Some points \<Rightarrow> pathStartPointsInsideWorkspaceLoop pf engineRunOptions points)"

definition extractEngineRunOptions :: "platform \<Rightarrow> RunOptions \<Rightarrow> Failure + EngineRunOptions" where
  "extractEngineRunOptions pf runOptions =
     (if length (ro_workspaceFiles runOptions) = 0
      then Inl (Failure AtLeastOneFileOrFolderMustBeIncluded [])
      else (case mapThrowing (validateFileOrFolder pf) (ro_workspaceFiles runOptions) of
              Inl e \<Rightarrow> Inl e
            | Inr absolutePaths \<Rightarrow>
                (let engineRunOptions =
                       \<lparr>workspaceFiles = removeRedundantPaths (sep pf) absolutePaths,
                        pathStartPoints = None\<rparr>
                 in case (case ro_pathStartPoints runOptions of
                            None \<Rightarrow> Inr engineRunOptions
                          | Some strs \<Rightarrow>
                              if length strs > 0
                              then (case mapThrowing (extractEnginePathStartPoints pf) strs of
                                      Inl e \<Rightarrow> Inl e
                                    | Inr pointss \<Rightarrow>
                                        Inr (engineRunOptions\<lparr>pathStartPoints := Some (concat pointss)\<rparr>))
                              else Inr engineRunOptions) of
                      Inl e \<Rightarrow> Inl e
                    | Inr engineRunOptions1 \<Rightarrow>
                        (case validatePathStartPointsAreInsideWorkspace pf engineRunOptions1 of
                           Inl e \<Rightarrow> Inl e
                         | Inr u \<Rightarrow> Inr engineRunOptions1))))"

subsection \<open>Validation of engine results\<close>

definition validateViolationRuleName :: "ApiViolation \<Rightarrow> string \<Rightarrow> RuleSelection \<Rightarrow> Failure + unit" where
  "validateViolationRuleName violation engineName ruleSelection =
     (case getRule ruleSelection engineName (v_ruleName violation) of
        Inl error \<Rightarrow>
          Inl (Failure EngineReturnedViolationForUnselectedRule
                 [S engineName, S (v_ruleName violation)])
      | Inr rule \<Rightarrow> Inr ())"

definition validateViolationPrimaryLocationIndex :: "ApiViolation \<Rightarrow> string \<Rightarrow> Failure + unit" where
  "validateViolationPrimaryLocationIndex violation engineName =
     (if \<not> isIntegerBetween (v_primaryLocationIndex violation) (Fin 0)
             (minusOne (lengthOf (v_codeLocations violation)))
      then Inl (Failure EngineReturnedViolationWithInvalidPrimaryLocationIndex
                  [S engineName, S (v_ruleName violation),
                   N (v_primaryLocationIndex violation),
                   N (lengthOf (v_codeLocations violation))])
      else Inr ())"

text \<open>The body of the loop of \<open>validateViolationCodeLocations\<close>, for one code location.\<close>

definition validateCodeLocation :: "platform \<Rightarrow> ApiViolation \<Rightarrow> string \<Rightarrow> ApiCodeLocation \<Rightarrow> Failure + unit" where
  "validateCodeLocation pf violation engineName codeLocation =
     (let absFile = toAbsolutePath pf (cl_file codeLocation)
      in if \<not> existsSync pf absFile
         then Inl (Failure EngineReturnedViolationWithCodeLocationFileThatDoesNotExist
                     [S engineName, S (v_ruleName violation), S absFile])
         else (case statSync pf absFile of
                 Inl error \<Rightarrow> Inl (Propagated error)
               | Inr stats \<Rightarrow>
                   if \<not> isFile stats
                   then Inl (Failure EngineReturnedViolationWithCodeLocationFileAsFolder
                               [S engineName, S (v_ruleName violation), S absFile])
                   else if \<not> isValidLineOrColumn (cl_startLine codeLocation)
                   then Inl (Failure EngineReturnedViolationWithCodeLocationWithInvalidLineOrColumn
                               [S engineName, S (v_ruleName violation), S ''startLine'',
                                N (cl_startLine codeLocation)])
                   else if \<not> isValidLineOrColumn (cl_startColumn codeLocation)
                   then Inl (Failure EngineReturnedViolationWithCodeLocationWithInvalidLineOrColumn
                               [S engineName, S (v_ruleName violation), S ''startColumn'',
                                N (cl_startColumn codeLocation)])
                   else (case cl_endLine codeLocation of
                           None \<Rightarrow> Inr ()
                         | Some endLine \<Rightarrow>
                             if \<not> isValidLineOrColumn endLine
                             then Inl (Failure EngineReturnedViolationWithCodeLocationWithInvalidLineOrColumn
                                         [S engineName, S (v_ruleName violation), S ''endLine'', N endLine])
                             else if number_lt endLine (cl_startLine codeLocation)
                             then Inl (Failure EngineReturnedViolationWithCodeLocationWithEndLineBeforeStartLine
                                         [S engineName, S (v_ruleName violation), N endLine,
                                          N (cl_startLine codeLocation)])
                             else (case cl_endColumn codeLocation of
                                     None \<Rightarrow> Inr ()
                                   | Some endColumn \<Rightarrow>
                                       if \<not> isValidLineOrColumn endColumn
                                       then Inl (Failure EngineReturnedViolationWithCodeLocationWithInvalidLineOrColumn
                                                   [S engineName, S (v_ruleName violation), S ''endColumn'',
                                                    N endColumn])
                                       else if number_eq endLine (cl_startLine codeLocation)
                                               \<and> number_lt endColumn (cl_startColumn codeLocation)
                                       then Inl (Failure
                                                   EngineReturnedViolationWithCodeLocationWithEndColumnBeforeStartColumnOnSameLine
                                                   [S engineName, S (v_ruleName violation), N endColumn,
                                                    N (cl_startColumn codeLocation)])
                                       else Inr ()))))"

text \<open>A loop whose body may throw: the first exception ends it.\<close>

fun forEachThrowing :: "('a \<Rightarrow> 'e + unit) \<Rightarrow> 'a list \<Rightarrow> 'e + unit" where
  "forEachThrowing f [] = Inr ()"
| "forEachThrowing f (x # xs) =
     (case f x of Inl e \<Rightarrow> Inl e | Inr u \<Rightarrow> forEachThrowing f xs)"

definition validateViolationCodeLocations :: "platform \<Rightarrow> ApiViolation \<Rightarrow> string \<Rightarrow> Failure + unit" where
  "validateViolationCodeLocations pf violation engineName =
     forEachThrowing (validateCodeLocation pf violation engineName) (v_codeLocations violation)"

definition validateViolation :: "platform \<Rightarrow> string \<Rightarrow> RuleSelection \<Rightarrow> ApiViolation \<Rightarrow> Failure + unit" where
  "validateViolation pf engineName ruleSelection violation =
     (case validateViolationRuleName violation engineName ruleSelection of
        Inl e \<Rightarrow> Inl e
      | Inr u \<Rightarrow>
          (case validateViolationPrimaryLocationIndex violation engineName of
             Inl e \<Rightarrow> Inl e
           | Inr u \<Rightarrow> validateViolationCodeLocations pf violation engineName))"

definition validateEngineRunResults ::
    "platform \<Rightarrow> string \<Rightarrow> ApiEngineRunResults \<Rightarrow> RuleSelection \<Rightarrow> Failure + unit" where
  "validateEngineRunResults pf engineName apiEngineRunResults ruleSelection =
     forEachThrowing (validateViolation pf engineName ruleSelection) (violations apiEngineRunResults)"

subsection \<open>The run\<close>

text \<open>
  When no engine is registered under the name, \<open>getEngine\<close> returns \<open>undefined\<close> and the call
  \<open>engine.runRules(...)\<close>, which stands inside the \<open>try\<close>, throws this \<open>TypeError\<close>.
\<close>

definition runRulesOfUndefined :: Thrown where
  "runRulesOfUndefined =
     Thrown (''Cannot read properties of undefined (reading '' @ [CHR 0x27] @ ''runRules''
             @ [CHR 0x27] @ '')'')"

definition rulesToRunFor :: "RuleSelection \<Rightarrow> string \<Rightarrow> string list" where
  "rulesToRunFor ruleSelection engineName = map Rule_getName (getRulesFor ruleSelection engineName)"

definition runEngineAndValidateResults ::
    "platform \<Rightarrow> CodeAnalyzer \<Rightarrow> string \<Rightarrow> RuleSelection \<Rightarrow> EngineRunOptions
      \<Rightarrow> CodeAnalyzer \<times> (Failure + EngineRunResults)" where
  "runEngineAndValidateResults pf ca engineName ruleSelection engineRunOptions =
     (let rulesToRun = rulesToRunFor ruleSelection engineName;
          ca1 = emitLogEvent ca LogDebug RunningEngineWithRules
                  [S engineName, J (JArray (map JString rulesToRun))]
      in (ca1,
          case (case getEngine ca1 engineName of
                  None \<Rightarrow> Inl runRulesOfUndefined
                | Some engine \<Rightarrow> eng_runRules engine rulesToRun engineRunOptions) of
            Inl error \<Rightarrow> Inr (UnexpectedErrorEngineRunResults engineName error)
          | Inr apiEngineRunResults \<Rightarrow>
              (case validateEngineRunResults pf engineName apiEngineRunResults ruleSelection of
                 Inl e \<Rightarrow> Inl e
               | Inr u \<Rightarrow>
                   Inr (EngineRunResultsImpl engineName apiEngineRunResults ruleSelection))))"

fun runLoop ::
    "platform \<Rightarrow> CodeAnalyzer \<Rightarrow> RuleSelection \<Rightarrow> EngineRunOptions \<Rightarrow> RunResults \<Rightarrow> string list
      \<Rightarrow> CodeAnalyzer \<times> (Failure + RunResults)" where
  "runLoop pf ca ruleSelection engineRunOptions runResults [] = (ca, Inr runResults)"
| "runLoop pf ca ruleSelection engineRunOptions runResults (engineName # rest) =
     (let ca1 = emitEvent ca (EngineProgressEvent engineName (Fin 0))
      in case runEngineAndValidateResults pf ca1 engineName ruleSelection engineRunOptions of
           (ca2, Inl e) \<Rightarrow> (ca2, Inl e)
         | (ca2, Inr engineRunResults) \<Rightarrow>
             (let runResults1 = addEngineRunResults runResults engineRunResults;
                  ca3 = emitEvent ca2 (EngineProgressEvent engineName (Fin 100));
                  ca4 = emitEvent ca3 (EngineResultsEvent engineRunResults)
              in runLoop pf ca4 ruleSelection engineRunOptions runResults1 rest))"

definition json_of_PathPoint :: "PathPoint \<Rightarrow> json" where
  "json_of_PathPoint p =
     JObject ([(''file'', JString (pp_file p))]
              @ (case pp_methodName p of None \<Rightarrow> [] | Some m \<Rightarrow> [(''methodName'', JString m)]))"

definition json_of_EngineRunOptions :: "EngineRunOptions \<Rightarrow> json" where
  "json_of_EngineRunOptions opts =
     JObject ([(''workspaceFiles'', JArray (map JString (workspaceFiles opts)))]
              @ (case pathStartPoints opts of
                   None \<Rightarrow> []
                 | Some ps \<Rightarrow> [(''pathStartPoints'', JArray (map json_of_PathPoint ps))]))"

definition run ::
    "platform \<Rightarrow> CodeAnalyzer \<Rightarrow> RuleSelection \<Rightarrow> RunOptions \<Rightarrow> CodeAnalyzer \<times> (Failure + RunResults)" where
  "run pf ca ruleSelection runOptions =
     (case extractEngineRunOptions pf runOptions of
        Inl e \<Rightarrow> (ca, Inl e)
      | Inr engineRunOptions \<Rightarrow>
          runLoop pf
            (emitLogEvent ca LogDebug RunningWithRunOptions
               [J (json_of_EngineRunOptions engineRunOptions)])
            ruleSelection engineRunOptions
            \<lparr>runDir = cwd pf @ [sep pf], engineRunResultsMap = []\<rparr>
            (getEngineNames ruleSelection))"

section \<open>Output (output-format.ts)\<close>

record ViolationOutput =
  out_id :: nat
  out_rule :: string
  out_engine :: string
  out_severity :: SeverityLevel
  out_type :: RuleType
  out_tags :: "string list"
  out_file :: "string option"
  out_line :: "number option"
  out_column :: "number option"
  out_endLine :: "number option"
  out_endColumn :: "number option"
  out_pathLocations :: "string list option"
  out_message :: string
  out_resources :: "string list"

definition makeRelativeIfPossible :: "string \<Rightarrow> string \<Rightarrow> string" where
  "makeRelativeIfPossible file rootDir =
     (if startsWith file rootDir then drop (length rootDir) file else file)"

text \<open>Whether a value counts as true in a condition: a string, a number, an optional value.\<close>

definition truthyString :: "string \<Rightarrow> bool" where
  "truthyString s = (s \<noteq> [])"

definition truthyNumber :: "number \<Rightarrow> bool" where
  "truthyNumber n = (n \<noteq> Fin 0 \<and> n \<noteq> NaN)"

fun truthyOption :: "('a \<Rightarrow> bool) \<Rightarrow> 'a option \<Rightarrow> bool" where
  "truthyOption truthy None = False"
| "truthyOption truthy (Some x) = truthy x"

definition createLocationString :: "platform \<Rightarrow> CodeLocation \<Rightarrow> string \<Rightarrow> string" where
  "createLocationString pf codeLocation runDirectory =
     (if truthyOption truthyString (CodeLocation_getFile pf codeLocation)
      then makeRelativeIfPossible (the (CodeLocation_getFile pf codeLocation)) runDirectory
           @ (if truthyOption truthyNumber (CodeLocation_getStartLine codeLocation)
              then '':'' @ String_number pf (the (CodeLocation_getStartLine codeLocation))
                   @ (if truthyOption truthyNumber (CodeLocation_getStartColumn codeLocation)
                      then '':'' @ String_number pf (the (CodeLocation_getStartColumn codeLocation))
                      else [])
              else [])
      else [])"

definition createPathLocations :: "platform \<Rightarrow> CodeLocation list \<Rightarrow> string \<Rightarrow> string list" where
  "createPathLocations pf codeLocations runDirectory =
     filter (\<lambda>s. length s > 0) (map (\<lambda>l. createLocationString pf l runDirectory) codeLocations)"

text \<open>
  What \<open>createViolationOutput\<close> can throw: the \<open>TypeError\<close> of reading a property of
  \<open>undefined\<close>, when the primary location index is no index of the code locations, and the
  error of \<open>getMessage\<close>.
\<close>

datatype OutputError = PrimaryLocationUndefined | MessageError MsgError

definition createViolationOutput ::
    "platform \<Rightarrow> nat \<Rightarrow> Violation \<Rightarrow> string \<Rightarrow> OutputError + ViolationOutput" where
  "createViolationOutput pf ident violation runDirectory =
     (let rule = Violation_getRule violation;
          codeLocations = Violation_getCodeLocations violation
      in case elementAt codeLocations (Violation_getPrimaryLocationIndex violation) of
           None \<Rightarrow> Inl PrimaryLocationUndefined
         | Some primaryLocation \<Rightarrow>
             (case Violation_getMessage pf violation of
                Inl e \<Rightarrow> Inl (MessageError e)
              | Inr message \<Rightarrow>
                  Inr \<lparr>out_id = ident,
                       out_rule = Rule_getName rule,
                       out_engine = Rule_getEngineName rule,
                       out_severity = Rule_getSeverityLevel rule,
                       out_type = Rule_getType rule,
                       out_tags = Rule_getTags rule,
                       out_file =
                         (if truthyOption truthyString (CodeLocation_getFile pf primaryLocation)
                          then Some (makeRelativeIfPossible
                                       (the (CodeLocation_getFile pf primaryLocation)) runDirectory)
                          else None),
                       out_line = CodeLocation_getStartLine primaryLocation,
                       out_column = CodeLocation_getStartColumn primaryLocation,
                       out_endLine = CodeLocation_getEndLine primaryLocation,
                       out_endColumn = CodeLocation_getEndColumn primaryLocation,
                       out_pathLocations =
                         (if Rule_getType rule \<in> set [DataFlow, Flow]
                          then Some (createPathLocations pf codeLocations runDirectory)
                          else None),
                       out_message = message,
                       out_resources = Violation_getResourceUrls violation\<rparr>))"

text \<open>
  The element that the loop of \<open>XmlOutputFormatter.format\<close> builds for one violation: the
  name, the attributes and the children of a node, or a text.
\<close>

datatype xml = Element string "(string \<times> string) list" "xml list" | Text string

fun RuleType_String :: "RuleType \<Rightarrow> string" where
  "RuleType_String Standard = ''Standard''"
| "RuleType_String DataFlow = ''DataFlow''"
| "RuleType_String Flow = ''Flow''"
| "RuleType_String UnexpectedError = ''UnexpectedError''"

definition textNode :: "string \<Rightarrow> string \<Rightarrow> xml" where
  "textNode name text = Element name [] [Text text]"

definition xmlViolationNode :: "platform \<Rightarrow> ViolationOutput \<Rightarrow> xml" where
  "xmlViolationNode pf violationOutput =
     Element ''violation''
       [(''id'', String_number pf (Fin (of_nat (out_id violationOutput))))]
       ([textNode ''rule'' (out_rule violationOutput),
         textNode ''engine'' (out_engine violationOutput),
         textNode ''severity'' (SeverityLevel_String (out_severity violationOutput)),
         textNode ''type'' (RuleType_String (out_type violationOutput)),
         Element ''tags'' [] (map (textNode ''tag'') (out_tags violationOutput))]
        @ (if truthyOption truthyString (out_file violationOutput)
           then [textNode ''file'' (the (out_file violationOutput))] else [])
        @ (if truthyOption truthyNumber (out_line violationOutput)
           then [textNode ''line'' (String_number pf (the (out_line violationOutput)))] else [])
        @ (if truthyOption truthyNumber (out_column violationOutput)
           then [textNode ''column'' (String_number pf (the (out_column violationOutput)))] else [])
        @ (if truthyOption truthyNumber (out_endLine violationOutput)
           then [textNode ''endLine'' (String_number pf (the (out_endLine violationOutput)))] else [])
        @ (if truthyOption truthyNumber (out_endColumn violationOutput)
           then [textNode ''endColumn'' (String_number pf (the (out_endColumn violationOutput)))]
           else [])
        @ (case out_pathLocations violationOutput of
             None \<Rightarrow> []
           | Some pathLocations \<Rightarrow>
               [Element ''pathLocations'' [] (map (textNode ''pathLocation'') pathLocations)])
        @ [textNode ''message'' (out_message violationOutput),
           Element ''resources'' [] (map (textNode ''resource'') (out_resources violationOutput))])"

fun xmlName :: "xml \<Rightarrow> string" where
  "xmlName (Element name attributes children) = name"
| "xmlName (Text text) = []"

fun xmlChildren :: "xml \<Rightarrow> xml list" where
  "xmlChildren (Element name attributes children) = children"
| "xmlChildren (Text text) = []"

section \<open>The claims' own notions\<close>

text \<open>
  The selectable tokens of a rule and the matching of a selector string as the specification
  words them: a selector matches a rule when every colon-delimited part is, up to case, one of
  the tokens of the rule.
\<close>

definition selectableTokens :: "string \<times> RuleDescription \<Rightarrow> string set" where
  "selectableTokens rule =
     {''all'', fst rule, rd_name (snd rule),
      SeverityLevel_name (rd_severityLevel (snd rule)),
      SeverityLevel_String (rd_severityLevel (snd rule))}
     \<union> set (rd_tags (snd rule))"

definition selectorMatches :: "string \<times> RuleDescription \<Rightarrow> string \<Rightarrow> bool" where
  "selectorMatches rule selector =
     (\<forall>part \<in> set (split (CHR '':'') selector).
        \<exists>token \<in> selectableTokens rule. toLowerCase part = toLowerCase token)"

text \<open>
  \<open>isAncestor c q p\<close>: the path \<open>q\<close>, followed by the separator \<open>c\<close>, is a prefix of the path
  \<open>p\<close>. \<open>keptOf c kept seen\<close> is the invariant of the loop of \<open>removeRedundantPaths\<close>: the kept
  paths are the paths seen so far that have no ancestor among them, each once, and every path
  seen so far is kept or has a kept ancestor.
\<close>

definition isAncestor :: "char \<Rightarrow> string \<Rightarrow> string \<Rightarrow> bool" where
  "isAncestor c q p = startsWith p (q @ [c])"

definition keptOf :: "char \<Rightarrow> string list \<Rightarrow> string list \<Rightarrow> bool" where
  "keptOf c kept seen =
     (distinct kept
      \<and> set kept = {p \<in> set seen. \<forall>q\<in>set seen. \<not> isAncestor c q p}
      \<and> (\<forall>q\<in>set seen. \<exists>m\<in>set kept. m = q \<or> isAncestor c m q))"

text \<open>
  The trimming of the method names. \<open>trimTrailingWhitespaceAndSemicolons\<close> is the trimming as
  the specification words it: all trailing white space and semicolons go.
  \<open>cutSpacesThenSemicolons\<close> is what the regular expression \<open>/\s+;*$/\<close> removes: the trailing
  semicolons together with the white space before them, when there is white space before
  them, and nothing otherwise.
\<close>

definition trimTrailingWhitespaceAndSemicolons :: "string \<Rightarrow> string" where
  "trimTrailingWhitespaceAndSemicolons s =
     rev (dropWhile (\<lambda>c. isWhiteSpace c \<or> c = CHR '';'') (rev s))"

definition cutSpacesThenSemicolons :: "string \<Rightarrow> string" where
  "cutSpacesThenSemicolons s =
     (let r = dropWhile (\<lambda>c. c = CHR '';'') (rev s)
      in if r \<noteq> [] \<and> isWhiteSpace (hd r) then rev (dropWhile isWhiteSpace r) else s)"

text \<open>
  What running one engine of the selection gives: its results, or the exception that ends the
  run.
\<close>

definition outcomeOf ::
    "platform \<Rightarrow> CodeAnalyzer \<Rightarrow> RuleSelection \<Rightarrow> EngineRunOptions \<Rightarrow> string \<Rightarrow> Failure + EngineRunResults" where
  "outcomeOf pf ca ruleSelection engineRunOptions engineName =
     snd (runEngineAndValidateResults pf ca engineName ruleSelection engineRunOptions)"

text \<open>
  The number of markers in the template of a message. An exception that the orchestrator
  raises itself, as opposed to one that a plugin or an engine threw, is an \<open>Error\<close> whose message
  \<open>getMessage\<close> makes from as many arguments as the template has markers.
\<close>

definition markerCount :: "MsgId \<Rightarrow> nat" where
  "markerCount msgId = snd (replaceMarkers (messageCatalog msgId) [])"

fun raisedByOrchestrator :: "Failure \<Rightarrow> bool" where
  "raisedByOrchestrator (Failure msgId args) = (length args = markerCount msgId)"
| "raisedByOrchestrator (Propagated error) = False"

text \<open>
  An exception that \<open>fs.statSync\<close> threw for some path and that the orchestrator, which has no
  \<open>try\<close> around these calls, lets through.
\<close>

definition thrownByStatSync :: "platform \<Rightarrow> Failure \<Rightarrow> bool" where
  "thrownByStatSync pf failure =
     (\<exists>path error. statSync pf path = Inl error \<and> failure = Propagated error)"

text \<open>The log events of level \<open>Error\<close>.\<close>

fun isErrorLogEvent :: "Event \<Rightarrow> bool" where
  "isErrorLogEvent (LogEvent logLevel msgId args) = (logLevel = LogError)"
| "isErrorLogEvent event = False"

section \<open>Example data\<close>

text \<open>Rules of the stub engines of the test suite.\<close>

definition stub1RuleA :: RuleDescription where
  "stub1RuleA =
     \<lparr>rd_name = ''stub1RuleA'', rd_severityLevel = Low, rd_type = Standard,
      rd_tags = [''Recommended'', ''CodeStyle''],
      rd_description = ''Some description for stub1RuleA'',
      rd_resourceUrls = [''https://example.com/stub1RuleA'']\<rparr>"

definition stub1RuleD :: RuleDescription where
  "stub1RuleD =
     \<lparr>rd_name = ''stub1RuleD'', rd_severityLevel = Low, rd_type = Standard,
      rd_tags = [''CodeStyle''],
      rd_description = ''Some description for stub1RuleD'',
      rd_resourceUrls = [''https://example.com/stub1RuleD'']\<rparr>"

definition stub2RuleC :: RuleDescription where
  "stub2RuleC =
     \<lparr>rd_name = ''stub2RuleC'', rd_severityLevel = High, rd_type = DataFlow,
      rd_tags = [''Recommended'', ''Performance'', ''Custom''],
      rd_description = ''Some description for stub2RuleC'',
      rd_resourceUrls = []\<rparr>"

text \<open>
  A POSIX platform with the working directory \<open>/work\<close> and a small file tree. The two
  conversions to strings are given on the values that the examples use.
\<close>

definition posixResolve :: "string \<Rightarrow> string" where
  "posixResolve p = (if startsWith p ''/'' then p else ''/work/'' @ p)"

definition posixFolders :: "string list" where
  "posixFolders = [''/work'', ''/work/test'', ''/work/a'', ''/work/a/b'']"

definition posixFiles :: "string list" where
  "posixFiles = [''/work/test/stubs.ts'', ''/work/test/run.test.ts'', ''/work/a/b/c.txt'']"

definition posix :: platform where
  "posix =
     \<lparr>sep = CHR ''/'',
      resolve = posixResolve,
      cwd = ''/work'',
      existsSync = (\<lambda>p. posixResolve p \<in> set (posixFolders @ posixFiles)),
      statSync =
        (\<lambda>p. if posixResolve p \<in> set posixFolders then Inr \<lparr>isDirectory = True, isFile = False\<rparr>
              else if posixResolve p \<in> set posixFiles then Inr \<lparr>isDirectory = False, isFile = True\<rparr>
              else Inl (Thrown (''ENOENT: no such file or directory, stat '' @ [CHR 0x27] @ p
                                @ [CHR 0x27]))),
      String_number =
        (\<lambda>n. if n = Fin 0 then ''0'' else if n = Fin 1 then ''1'' else if n = Fin 2 then ''2''
              else if n = Fin 3 then ''3'' else ''?''),
      JSON_stringify = (\<lambda>v. ''{}'')\<rparr>"

text \<open>
  The same platform when the file tree has gone by the time \<open>fs.statSync\<close> is called: every
  call throws.
\<close>

definition staleFileSystem :: platform where
  "staleFileSystem =
     posix\<lparr>statSync := (\<lambda>p. Inl (Thrown (''ENOENT: no such file or directory, stat ''
                                          @ [CHR 0x27] @ p @ [CHR 0x27])))\<rparr>"

text \<open>
  Engines, plugins and violations after the stubs of the test suite, an orchestrator with two
  engines registered, the selection of the rules tagged "Recommended", and run options.
\<close>

definition defaultConfig :: CodeAnalyzerConfig where
  "defaultConfig = \<lparr>cfg_rules = (\<lambda>engineName. None), cfg_engines = (\<lambda>engineName. None)\<rparr>"

definition sampleViolation :: ApiViolation where
  "sampleViolation =
     \<lparr>v_ruleName = ''stub1RuleA'', v_message = ''SomeViolationMessage1'',
      v_codeLocations =
        [\<lparr>cl_file = ''test/run.test.ts'', cl_startLine = Fin 3, cl_startColumn = Fin 6,
          cl_endLine = Some (Fin 11), cl_endColumn = Some (Fin 8)\<rparr>],
      v_primaryLocationIndex = Fin 0,
      v_resourceUrls = Some [''https://example.com/stub1RuleA'']\<rparr>"

definition stubEngine1 :: "ApiViolation list \<Rightarrow> Engine" where
  "stubEngine1 resultsToReturn =
     \<lparr>eng_getName = ''stubEngine1'', eng_validate = None,
      eng_describeRules = Inr [stub1RuleA, stub1RuleD],
      eng_runRules = (\<lambda>ruleNames runOptions. Inr \<lparr>violations = resultsToReturn\<rparr>)\<rparr>"

definition throwingEngine :: Engine where
  "throwingEngine =
     \<lparr>eng_getName = ''throwingEngine'', eng_validate = None,
      eng_describeRules = Inr [stub1RuleA, stub1RuleD],
      eng_runRules =
        (\<lambda>ruleNames runOptions. Inl (Thrown ''SomeErrorMessageFromThrowingEngine''))\<rparr>"

definition exampleAnalyzer :: "ApiViolation list \<Rightarrow> CodeAnalyzer" where
  "exampleAnalyzer resultsToReturn =
     \<lparr>config = defaultConfig,
      engines = [(''throwingEngine'', throwingEngine),
                 (''stubEngine1'', stubEngine1 resultsToReturn)],
      allRules = [(''throwingEngine'', stub1RuleA), (''throwingEngine'', stub1RuleD),
                  (''stubEngine1'', stub1RuleA), (''stubEngine1'', stub1RuleD)],
      emitted = []\<rparr>"

definition exampleSelection :: RuleSelection where
  "exampleSelection =
     [(''throwingEngine'', [RuleImpl ''throwingEngine'' stub1RuleA]),
      (''stubEngine1'', [RuleImpl ''stubEngine1'' stub1RuleA])]"

definition exampleRunOptions :: RunOptions where
  "exampleRunOptions = \<lparr>ro_workspaceFiles = [''test''], ro_pathStartPoints = None\<rparr>"

definition exampleEngineRunOptions :: EngineRunOptions where
  "exampleEngineRunOptions = \<lparr>workspaceFiles = [''/work/test''], pathStartPoints = None\<rparr>"

definition badIndexViolation :: ApiViolation where
  "badIndexViolation = sampleViolation\<lparr>v_primaryLocationIndex := Fin 1\<rparr>"

definition emptyAnalyzer :: CodeAnalyzer where
  "emptyAnalyzer = \<lparr>config = defaultConfig, engines = [], allRules = [], emitted = []\<rparr>"

definition stubEngine2 :: Engine where
  "stubEngine2 =
     \<lparr>eng_getName = ''stubEngine2'', eng_validate = None,
      eng_describeRules = Inr [stub2RuleC],
      eng_runRules = (\<lambda>ruleNames runOptions. Inr \<lparr>violations = []\<rparr>)\<rparr>"

definition contradictingEnginePlugin :: EnginePlugin where
  "contradictingEnginePlugin =
     \<lparr>pl_getApiVersion = ENGINE_API_VERSION,
      pl_getAvailableEngineNames = Inr [''stubEngine1''],
      pl_createEngine = (\<lambda>engineName engConf. Inr stubEngine2)\<rparr>"

definition stubEnginePlugin :: EnginePlugin where
  "stubEnginePlugin =
     \<lparr>pl_getApiVersion = ENGINE_API_VERSION,
      pl_getAvailableEngineNames = Inr [''stubEngine1''],
      pl_createEngine = (\<lambda>engineName engConf. Inr (stubEngine1 []))\<rparr>"

section \<open>Strings: properties\<close>

lemma isUpperCase_bits: "isUpperCase (Char b0 b1 b2 b3 b4 b5 b6 b7) \<Longrightarrow> \<not> b5 \<and> b6"
  unfolding isUpperCase_def Let_def
  by (cases b0; cases b1; cases b2; cases b3; cases b4; cases b5; cases b6; cases b7; simp)

lemma toLowerCaseChar_not_upper: "\<not> isUpperCase (toLowerCaseChar c)"
proof (cases c)
  case (Char b0 b1 b2 b3 b4 b5 b6 b7)
  show ?thesis
    using isUpperCase_bits [of b0 b1 b2 b3 b4 True b6 b7]
    by (auto simp: Char toLowerCaseChar_def)
qed

lemma toLowerCaseChar_idem: "toLowerCaseChar (toLowerCaseChar c) = toLowerCaseChar c"
  using toLowerCaseChar_not_upper [of c] by (simp add: toLowerCaseChar_def [of "toLowerCaseChar c"])

lemma toLowerCaseChar_colon: "(toLowerCaseChar c = CHR '':'') = (c = CHR '':'')"
proof (cases c)
  case (Char b0 b1 b2 b3 b4 b5 b6 b7)
  have "\<not> isUpperCase (CHR '':'')" by (simp add: isUpperCase_def)
  then show ?thesis
    using isUpperCase_bits [of b0 b1 b2 b3 b4 b5 b6 b7]
    by (auto simp: Char toLowerCaseChar_def)
qed

lemma toLowerCase_idem: "toLowerCase (toLowerCase s) = toLowerCase s"
  by (simp add: toLowerCase_def toLowerCaseChar_idem)

lemma split_nonempty: "split c s \<noteq> []"
  by (induction s) (auto split: list.splits)

lemma split_toLowerCase:
  "split (CHR '':'') (toLowerCase s) = map toLowerCase (split (CHR '':'') s)"
proof (induction s)
  case Nil
  then show ?case by (simp add: toLowerCase_def)
next
  case (Cons x xs)
  then show ?case
    using split_nonempty [of "CHR '':''" xs]
    by (auto simp: toLowerCase_def toLowerCaseChar_colon split: list.splits)
qed

lemma toLowerCase_all: "toLowerCase ''all'' = ''all''"
  by (simp add: toLowerCase_def toLowerCaseChar_def isUpperCase_def)

lemma toLowerCase_sev: "toLowerCase (SeverityLevel_String v) = SeverityLevel_String v"
  by (cases v) (simp_all add: toLowerCase_def toLowerCaseChar_def isUpperCase_def)

lemma startsWith_prefix: "startsWith s p = prefix p s"
  by (auto simp: startsWith_def prefix_def) (metis append_eq_conv_conj)

section \<open>Selection: properties\<close>

lemma allPartsMatched_iff: "allPartsMatched sel parts = (\<forall>p\<in>set parts. p \<in> set sel)"
  by (induction parts) (auto simp: list_ex_iff Let_def)

lemma set_selectables:
  "set (selectables e d) = toLowerCase ` selectableTokens (e, d)"
  by (auto simp: selectables_def selectableTokens_def toLowerCase_all toLowerCase_sev)

text \<open>The matching of the source is the matching of the specification.\<close>

lemma matchesRuleSelector_iff: "matchesRuleSelector rule s = selectorMatches rule s"
  by (cases rule)
     (auto simp: matchesRuleSelector_def selectorMatches_def allPartsMatched_iff
        split_toLowerCase set_selectables)

lemma map_of_pushRule:
  "map_of (pushRule m e r) k =
     (if k = e then map_option (\<lambda>rules. rules @ [r]) (map_of m k) else map_of m k)"
  by (induction m e r rule: pushRule.induct) auto

lemma map_fst_pushRule: "map fst (pushRule m e r) = map fst m"
  by (induction m e r rule: pushRule.induct) auto

lemma getRulesFor_addRule:
  "getRulesFor (addRule m r) e =
     (if e = Rule_getEngineName r then getRulesFor m e @ [r] else getRulesFor m e)"
  by (auto simp: getRulesFor_def addRule_def Let_def RuleSelection_has_def map_of_pushRule
      split: option.splits)

lemma getEngineNames_addRule:
  "getEngineNames (addRule m r) =
     (if Rule_getEngineName r \<in> set (getEngineNames m) then getEngineNames m
      else getEngineNames m @ [Rule_getEngineName r])"
  by (auto simp: getEngineNames_def addRule_def Let_def RuleSelection_has_def map_fst_pushRule
      map_of_eq_None_iff)

lemma getRulesFor_selectLoop:
  "getRulesFor (selectLoop acc sels rules) e =
     getRulesFor acc e @
     map (\<lambda>r. RuleImpl (fst r) (snd r))
       (filter (\<lambda>r. fst r = e \<and> (\<exists>s\<in>set sels. matchesRuleSelector r s)) rules)"
  by (induction rules arbitrary: acc) (auto simp: getRulesFor_addRule list_ex_iff)

lemma set_getEngineNames_selectLoop:
  "set (getEngineNames (selectLoop acc sels rules)) =
     set (getEngineNames acc) \<union>
     fst ` {r \<in> set rules. \<exists>s\<in>set sels. matchesRuleSelector r s}"
  by (induction rules arbitrary: acc) (auto simp: getEngineNames_addRule list_ex_iff)

lemma distinct_getEngineNames_selectLoop:
  "distinct (getEngineNames acc) \<Longrightarrow> distinct (getEngineNames (selectLoop acc sels rules))"
  by (induction rules arbitrary: acc) (auto simp: getEngineNames_addRule)

lemma getRulesFor_Nil: "getRulesFor [] e = []"
  by (simp add: getRulesFor_def)

lemma getEngineNames_Nil: "getEngineNames [] = []"
  by (simp add: getEngineNames_def)

lemma count_list_map_inj:
  "inj_on f (insert x (set xs)) \<Longrightarrow> count_list (map f xs) (f x) = count_list xs x"
  by (induction xs) (auto simp: inj_on_def)

lemma count_list_filter:
  "count_list (filter P xs) x = (if P x then count_list xs x else 0)"
  by (induction xs) auto

lemma count_list_map_filter_inj:
  "inj_on f (set xs) \<Longrightarrow> x \<in> set xs \<Longrightarrow>
   count_list (map f (filter P xs)) (f x) = (if P x then count_list xs x else 0)"
  using count_list_map_inj [of f x "filter P xs"] count_list_filter [of P xs x]
  by (auto simp: inj_on_def)

lemma distinct_count_list: "distinct xs \<Longrightarrow> x \<in> set xs \<Longrightarrow> count_list xs x = 1"
  by (induction xs) (auto simp: count_list_0_iff)

text \<open>
  C3, for a non-empty list of selector strings: the rules selected for an engine are the rules
  of that engine in the catalog, in catalog order, that at least one selector string matches,
  where a selector string matches a rule when every colon-delimited part of it equals, up to
  case, a selectable token of the rule; the engines of the selection are the engines of the
  matching rules, each once. When the catalog holds every rule once, that is no two entries
  with the same engine and rule name, the rules selected for an engine have different names,
  and a rule of the catalog is in the list of its engine exactly once if a selector string
  matches it, however many do, and not at all otherwise. (An empty list of selector strings is
  treated as the list with the single selector "Recommended".)
\<close>

theorem selectRules_union_of_intersections:
  assumes "selectors \<noteq> []"
  shows "getRulesFor (selectRules catalog selectors) engineName =
           map (\<lambda>r. RuleImpl (fst r) (snd r))
             (filter (\<lambda>r. fst r = engineName \<and> (\<exists>s\<in>set selectors. selectorMatches r s)) catalog)
       \<and> set (getEngineNames (selectRules catalog selectors)) =
           fst ` {r \<in> set catalog. \<exists>s\<in>set selectors. selectorMatches r s}
       \<and> distinct (getEngineNames (selectRules catalog selectors))
       \<and> (distinct (map (\<lambda>r. (fst r, rd_name (snd r))) catalog) \<longrightarrow>
            distinct (map Rule_getName (getRulesFor (selectRules catalog selectors) engineName))
            \<and> (\<forall>r\<in>set catalog.
                  count_list (getRulesFor (selectRules catalog selectors) (fst r))
                    (RuleImpl (fst r) (snd r))
                  = (if \<exists>s\<in>set selectors. selectorMatches r s then 1 else 0)))"
proof -
  let ?sel = "\<lambda>e. filter (\<lambda>r. fst r = e \<and> (\<exists>s\<in>set selectors. selectorMatches r s)) catalog"
  have rules: "getRulesFor (selectRules catalog selectors) e =
      map (\<lambda>r. RuleImpl (fst r) (snd r)) (?sel e)" for e
    using assms
    by (simp add: selectRules_def getRulesFor_selectLoop matchesRuleSelector_iff getRulesFor_Nil)
  have names: "set (getEngineNames (selectRules catalog selectors)) =
           fst ` {r \<in> set catalog. \<exists>s\<in>set selectors. selectorMatches r s}"
    and dist: "distinct (getEngineNames (selectRules catalog selectors))"
    using assms
    by (simp_all add: selectRules_def set_getEngineNames_selectLoop
        distinct_getEngineNames_selectLoop matchesRuleSelector_iff getEngineNames_Nil)
  have once: "distinct (map Rule_getName (getRulesFor (selectRules catalog selectors) engineName))
            \<and> (\<forall>r\<in>set catalog.
                  count_list (getRulesFor (selectRules catalog selectors) (fst r))
                    (RuleImpl (fst r) (snd r))
                  = (if \<exists>s\<in>set selectors. selectorMatches r s then 1 else 0))"
    if d: "distinct (map (\<lambda>r. (fst r, rd_name (snd r))) catalog)"
  proof
    have "distinct (map (\<lambda>r. (fst r, rd_name (snd r))) (?sel engineName))"
      using d by (rule distinct_map_filter)
    moreover have "inj_on (\<lambda>r. (fst r, rd_name (snd r))) (set (?sel engineName))"
      using d by (auto simp: distinct_map intro: inj_on_subset)
    ultimately have "distinct (map (\<lambda>r. rd_name (snd r)) (?sel engineName))"
      by (auto simp: distinct_map inj_on_def)
    then show "distinct (map Rule_getName (getRulesFor (selectRules catalog selectors) engineName))"
      by (simp add: rules comp_def)
  next
    have dc: "distinct catalog" using d by (simp add: distinct_map)
    have inj: "inj_on (\<lambda>r. RuleImpl (fst r) (snd r)) (set catalog)"
      by (auto simp: inj_on_def prod_eq_iff)
    show "\<forall>r\<in>set catalog.
            count_list (getRulesFor (selectRules catalog selectors) (fst r))
              (RuleImpl (fst r) (snd r))
            = (if \<exists>s\<in>set selectors. selectorMatches r s then 1 else 0)"
    proof
      fix r assume r: "r \<in> set catalog"
      show "count_list (getRulesFor (selectRules catalog selectors) (fst r))
              (RuleImpl (fst r) (snd r))
            = (if \<exists>s\<in>set selectors. selectorMatches r s then 1 else 0)"
        unfolding rules
        using count_list_map_filter_inj [OF inj r, of "\<lambda>x. fst x = fst r \<and> (\<exists>s\<in>set selectors. selectorMatches x s)"]
          distinct_count_list [OF dc r]
        by simp
    qed
  qed
  have imp: "distinct (map (\<lambda>r. (fst r, rd_name (snd r))) catalog) \<longrightarrow>
            distinct (map Rule_getName (getRulesFor (selectRules catalog selectors) engineName))
            \<and> (\<forall>r\<in>set catalog.
                  count_list (getRulesFor (selectRules catalog selectors) (fst r))
                    (RuleImpl (fst r) (snd r))
                  = (if \<exists>s\<in>set selectors. selectorMatches r s then 1 else 0))"
    by (rule impI) (rule once)
  show ?thesis
    using rules [of engineName] names dist imp by - (intro conjI; assumption)
qed

theorem selectRules_union_of_intersections_witness:
  "[''codeSTYLE:4'', ''stub1RuleA'', ''stub2RuleC''] \<noteq> []
   \<and> distinct (map (\<lambda>r. (fst r, rd_name (snd r)))
        [(''stubEngine1'', stub1RuleA), (''stubEngine1'', stub1RuleD), (''stubEngine2'', stub2RuleC)])
   \<and> getRulesFor
       (selectRules
          [(''stubEngine1'', stub1RuleA), (''stubEngine1'', stub1RuleD), (''stubEngine2'', stub2RuleC)]
          [''codeSTYLE:4'', ''stub1RuleA'', ''stub2RuleC''])
       ''stubEngine1''
     = [RuleImpl ''stubEngine1'' stub1RuleA, RuleImpl ''stubEngine1'' stub1RuleD]
   \<and> distinct (getEngineNames
       (selectRules
          [(''stubEngine1'', stub1RuleA), (''stubEngine1'', stub1RuleD), (''stubEngine2'', stub2RuleC)]
          [''codeSTYLE:4'', ''stub1RuleA'', ''stub2RuleC'']))
   \<and> distinct (map Rule_getName (getRulesFor
       (selectRules
          [(''stubEngine1'', stub1RuleA), (''stubEngine1'', stub1RuleD), (''stubEngine2'', stub2RuleC)]
          [''codeSTYLE:4'', ''stub1RuleA'', ''stub2RuleC''])
       ''stubEngine1''))
   \<and> count_list (getRulesFor
       (selectRules
          [(''stubEngine1'', stub1RuleA), (''stubEngine1'', stub1RuleD), (''stubEngine2'', stub2RuleC)]
          [''codeSTYLE:4'', ''stub1RuleA'', ''stub2RuleC''])
       ''stubEngine1'') (RuleImpl ''stubEngine1'' stub1RuleA) = 1"
  using selectRules_union_of_intersections
    [of "[''codeSTYLE:4'', ''stub1RuleA'', ''stub2RuleC'']"
        "[(''stubEngine1'', stub1RuleA), (''stubEngine1'', stub1RuleD), (''stubEngine2'', stub2RuleC)]"
        "''stubEngine1''"]
  by (simp add: selectorMatches_def selectableTokens_def stub1RuleA_def stub1RuleD_def
      stub2RuleC_def toLowerCase_def toLowerCaseChar_def isUpperCase_def)

text \<open>
  With no selector strings at all the rule tagged "Recommended" is selected, although no
  selector string of the (empty) list matches it.
\<close>

theorem selectRules_empty_list_counterexample:
  "getRulesFor (selectRules [(''stubEngine1'', stub1RuleA)] []) ''stubEngine1''
     = [RuleImpl ''stubEngine1'' stub1RuleA]
   \<and> filter (selectorMatches (''stubEngine1'', stub1RuleA)) [] = []"
  by (simp add: selectRules_def matchesRuleSelector_def selectables_def stub1RuleA_def
      toLowerCase_def toLowerCaseChar_def isUpperCase_def addRule_def RuleSelection_has_def
      getRulesFor_def)

text \<open>
  C9: for every catalog, selecting with no selector strings gives the same selection as
  selecting with the single selector "Recommended".
\<close>

theorem selectRules_no_selectors_is_Recommended:
  "selectRules catalog [] = selectRules catalog [''Recommended'']"
  by (simp add: selectRules_def)

section \<open>Workspace paths: properties\<close>

lemma isAncestor_length: "isAncestor c q p \<Longrightarrow> length q < length p"
  by (auto simp: isAncestor_def startsWith_prefix prefix_def)

lemma isAncestor_trans: "isAncestor c a b \<Longrightarrow> isAncestor c b d \<Longrightarrow> isAncestor c a d"
  by (auto simp: isAncestor_def startsWith_prefix prefix_def)

lemma filterPaths_step:
  assumes inv: "keptOf c kept seen" and len: "\<forall>q\<in>set seen. length q \<le> length cur"
  shows "keptOf c (if \<not> list_ex (\<lambda>ex. startsWith cur (ex @ [c]) \<or> ex = cur) kept
                   then kept @ [cur] else kept) (seen @ [cur])"
proof -
  from inv have d: "distinct kept"
    and s: "set kept = {p \<in> set seen. \<forall>q\<in>set seen. \<not> isAncestor c q p}"
    and cov: "\<forall>q\<in>set seen. \<exists>m\<in>set kept. m = q \<or> isAncestor c m q"
    by (auto simp: keptOf_def)
  have nocur: "\<not> isAncestor c cur p" if "p \<in> set seen" for p
    using that len isAncestor_length [of c cur p] by fastforce
  have noself: "\<not> isAncestor c cur cur"
    using isAncestor_length [of c cur cur] by auto
  show ?thesis
  proof (cases "list_ex (\<lambda>ex. startsWith cur (ex @ [c]) \<or> ex = cur) kept")
    case True
    then obtain ex where ex: "ex \<in> set kept" "isAncestor c ex cur \<or> ex = cur"
      by (auto simp: list_ex_iff isAncestor_def)
    have exd: "ex \<in> set seen" using ex s by auto
    have "set kept = {p \<in> set (seen @ [cur]). \<forall>q\<in>set (seen @ [cur]). \<not> isAncestor c q p}"
    proof (cases "ex = cur")
      case True
      then show ?thesis using s ex nocur noself by auto
    next
      case False
      then have "isAncestor c ex cur" using ex by simp
      then show ?thesis using s exd nocur by auto
    qed
    moreover have "\<forall>q\<in>set (seen @ [cur]). \<exists>m\<in>set kept. m = q \<or> isAncestor c m q"
      using cov ex by auto
    ultimately show ?thesis using True d by (simp add: keptOf_def)
  next
    case False
    then have nex: "\<forall>ex\<in>set kept. \<not> isAncestor c ex cur \<and> ex \<noteq> cur"
      by (auto simp: list_ex_iff isAncestor_def)
    have noanc: "\<not> isAncestor c q cur" if "q \<in> set seen" for q
    proof
      assume a: "isAncestor c q cur"
      from cov that obtain m where m: "m \<in> set kept" "m = q \<or> isAncestor c m q" by blast
      then have "isAncestor c m cur" using a isAncestor_trans by blast
      then show False using nex m by blast
    qed
    have "set (kept @ [cur]) = {p \<in> set (seen @ [cur]). \<forall>q\<in>set (seen @ [cur]). \<not> isAncestor c q p}"
      using s nocur noself noanc by auto
    moreover have "\<forall>q\<in>set (seen @ [cur]). \<exists>m\<in>set (kept @ [cur]). m = q \<or> isAncestor c m q"
      using cov by auto
    moreover have "distinct (kept @ [cur])" using d nex by auto
    ultimately show ?thesis using False by (simp add: keptOf_def)
  qed
qed

lemma filterPaths_keptOf:
  "keptOf c kept seen \<Longrightarrow> sorted (map length (seen @ xs)) \<Longrightarrow>
   keptOf c (filterPaths c kept xs) (seen @ xs)"
proof (induction xs arbitrary: kept seen)
  case Nil
  then show ?case by simp
next
  case (Cons cur xs)
  have len: "\<forall>q\<in>set seen. length q \<le> length cur"
    using Cons.prems(2) by (auto simp: sorted_append)
  have "keptOf c (filterPaths c (if \<not> list_ex (\<lambda>ex. startsWith cur (ex @ [c]) \<or> ex = cur) kept
                   then kept @ [cur] else kept) xs) ((seen @ [cur]) @ xs)"
    using Cons.prems(2) by (intro Cons.IH filterPaths_step [OF Cons.prems(1) len]) simp
  then show ?case by (simp add: Let_def)
qed

lemma keptOf_Nil: "keptOf c [] []"
  by (simp add: keptOf_def)

lemma removeRedundantPaths_set:
  "set (removeRedundantPaths c ps) = {p \<in> set ps. \<forall>q\<in>set ps. \<not> startsWith p (q @ [c])}
   \<and> distinct (removeRedundantPaths c ps) \<and> sorted (removeRedundantPaths c ps)"
proof -
  have "keptOf c (filterPaths c [] (sort_key length ps)) ([] @ sort_key length ps)"
    by (rule filterPaths_keptOf [OF keptOf_Nil]) simp
  then show ?thesis
    by (simp add: removeRedundantPaths_def keptOf_def isAncestor_def)
qed

lemma mapThrowing_validateFileOrFolder:
  "mapThrowing (validateFileOrFolder pf) files = Inr absolutePaths \<Longrightarrow> absolutePaths = map (toAbsolutePath pf) files"
  by (induction files arbitrary: absolutePaths)
     (auto simp: validateFileOrFolder_def Let_def split: if_splits sum.splits)

lemma extractEngineRunOptions_workspaceFiles:
  "extractEngineRunOptions pf runOptions = Inr opts \<Longrightarrow>
   workspaceFiles opts =
     removeRedundantPaths (sep pf) (map (toAbsolutePath pf) (ro_workspaceFiles runOptions))"
  by (auto simp: extractEngineRunOptions_def Let_def
      split: if_splits sum.splits option.splits dest!: mapThrowing_validateFileOrFolder)

text \<open>
  C5: the normalization of the workspace paths in \<open>run\<close> sorts the absolute paths by length,
  keeps a path only if no path kept before equals it or, followed by the path separator, is a
  prefix of it, and sorts the kept paths in the order of strings. So the result holds, sorted
  and each once, the given paths of which no other given path is an ancestor; for a folder
  \<open>a\<close>, the paths \<open>a/b\<close>, \<open>a\<close> and \<open>a/b/c.txt\<close> are normalized to \<open>a\<close> alone; and this result is
  what \<open>run\<close> hands to the engines as workspace.
\<close>

theorem removeRedundantPaths_normalizes:
  "removeRedundantPaths c paths = sort (filterPaths c [] (sort_key length paths))
   \<and> filterPaths c kept (p # rest) =
       filterPaths c
         (if (\<exists>k\<in>set kept. k = p \<or> startsWith p (k @ [c])) then kept else kept @ [p]) rest
   \<and> set (removeRedundantPaths c paths) =
       {p \<in> set paths. \<forall>q\<in>set paths. \<not> startsWith p (q @ [c])}
   \<and> distinct (removeRedundantPaths c paths)
   \<and> sorted (removeRedundantPaths c paths)
   \<and> removeRedundantPaths c [a @ c # ''b'', a, a @ c # ''b'' @ c # ''c.txt''] = [a]
   \<and> (\<forall>opts. extractEngineRunOptions pf runOptions = Inr opts \<longrightarrow>
        workspaceFiles opts =
          removeRedundantPaths (sep pf) (map (toAbsolutePath pf) (ro_workspaceFiles runOptions)))"
proof -
  have 1: "removeRedundantPaths c paths = sort (filterPaths c [] (sort_key length paths))"
    by (simp add: removeRedundantPaths_def)
  have 2: "filterPaths c kept (p # rest) =
       filterPaths c
         (if (\<exists>k\<in>set kept. k = p \<or> startsWith p (k @ [c])) then kept else kept @ [p]) rest"
    by (auto simp: list_ex_iff Let_def)
  have 3: "removeRedundantPaths c [a @ c # ''b'', a, a @ c # ''b'' @ c # ''c.txt''] = [a]"
    by (simp add: removeRedundantPaths_def startsWith_def)
  show ?thesis
    using 1 2 3 removeRedundantPaths_set [of c paths] extractEngineRunOptions_workspaceFiles [of pf runOptions]
    by blast
qed

theorem removeRedundantPaths_normalizes_witness:
  "extractEngineRunOptions posix
       \<lparr>ro_workspaceFiles = [''a/b'', ''a'', ''a/b/c.txt''], ro_pathStartPoints = None\<rparr>
     = Inr \<lparr>workspaceFiles = [''/work/a''], pathStartPoints = None\<rparr>
   \<and> removeRedundantPaths (CHR ''/'') [''a/b'', ''a'', ''a/b/c.txt''] = [''a'']
   \<and> set (removeRedundantPaths (CHR ''/'') [''a/b'', ''a'', ''a/b/c.txt'']) = {''a''}"
  using removeRedundantPaths_normalizes
    [of "CHR ''/''" "[''a/b'', ''a'', ''a/b/c.txt'']" "[]" "''a''" "[]" "''a''" posix
        "\<lparr>ro_workspaceFiles = [''a/b'', ''a'', ''a/b/c.txt''], ro_pathStartPoints = None\<rparr>"]
  by (simp add: extractEngineRunOptions_def posix_def posixResolve_def posixFolders_def
      posixFiles_def validateFileOrFolder_def toAbsolutePath_def removeRedundantPaths_def
      startsWith_def validatePathStartPointsAreInsideWorkspace_def)

section \<open>Violations: properties\<close>

lemma getMessage_UnexpectedEngineErrorViolationMessage:
  \<open>getMessage pf UnexpectedEngineErrorViolationMessage [S engineName, S errorMessage] =
     Inr (''The engine with name "'' @ engineName @ ''" threw an unexpected error: ''
          @ errorMessage)\<close>
  by (simp add: getMessage_def)

text \<open>
  C8: the resource urls of a validated violation are the urls of its rule, in their order,
  followed by the urls that the engine supplied with the violation and that are not among the
  urls of the rule (equality of strings), in their order; with no urls supplied, they are the
  urls of the rule.
\<close>

theorem getResourceUrls_rule_urls_then_new_urls:
  "Violation_getResourceUrls (ViolationImpl violation rule) =
     Rule_getResourceUrls rule
     @ filter (\<lambda>url. url \<notin> set (Rule_getResourceUrls rule))
         (case v_resourceUrls violation of None \<Rightarrow> [] | Some urls \<Rightarrow> urls)
   \<and> Violation_getResourceUrls (ViolationImpl (violation\<lparr>v_resourceUrls := None\<rparr>) rule) =
       Rule_getResourceUrls rule"
  by (simp add: Array_includes_def list_ex_iff Let_def split: option.splits)

text \<open>
  C7: a code location with an end column and no end line is accepted. Validation of a code
  location without end line does not look at the end column: it fails only for a file that
  does not exist, whose \<open>fs.statSync\<close> throws or that is not a file, or a start line or start
  column that is not a positive integer, whatever the end column is; and \<open>getEndColumn\<close> of the resulting code location is
  undefined.
\<close>

theorem endColumn_without_endLine_is_discarded:
  "validateCodeLocation pf violation engineName
       (codeLocation\<lparr>cl_endLine := None, cl_endColumn := endColumn\<rparr>) =
     (if \<not> existsSync pf (toAbsolutePath pf (cl_file codeLocation))
      then Inl (Failure EngineReturnedViolationWithCodeLocationFileThatDoesNotExist
                  [S engineName, S (v_ruleName violation),
                   S (toAbsolutePath pf (cl_file codeLocation))])
      else (case statSync pf (toAbsolutePath pf (cl_file codeLocation)) of
              Inl error \<Rightarrow> Inl (Propagated error)
            | Inr stats \<Rightarrow>
                if \<not> isFile stats
                then Inl (Failure EngineReturnedViolationWithCodeLocationFileAsFolder
                            [S engineName, S (v_ruleName violation),
                             S (toAbsolutePath pf (cl_file codeLocation))])
                else if \<not> isValidLineOrColumn (cl_startLine codeLocation)
                then Inl (Failure EngineReturnedViolationWithCodeLocationWithInvalidLineOrColumn
                            [S engineName, S (v_ruleName violation), S ''startLine'',
                             N (cl_startLine codeLocation)])
                else if \<not> isValidLineOrColumn (cl_startColumn codeLocation)
                then Inl (Failure EngineReturnedViolationWithCodeLocationWithInvalidLineOrColumn
                            [S engineName, S (v_ruleName violation), S ''startColumn'',
                             N (cl_startColumn codeLocation)])
                else Inr ()))
   \<and> validateViolationCodeLocations pf violation engineName =
       validateViolationCodeLocations pf
         (violation\<lparr>v_codeLocations :=
            map (\<lambda>l. if cl_endLine l = None then l\<lparr>cl_endColumn := None\<rparr> else l)
              (v_codeLocations violation)\<rparr>)
         engineName
   \<and> CodeLocation_getEndColumn
       (CodeLocationImpl (codeLocation\<lparr>cl_endLine := None, cl_endColumn := endColumn\<rparr>)) = None"
proof -
  have step: "validateCodeLocation pf v engineName l =
      validateCodeLocation pf v' engineName
        (if cl_endLine l = None then l\<lparr>cl_endColumn := None\<rparr> else l)"
    if "v_ruleName v = v_ruleName v'" for v v' l
    unfolding validateCodeLocation_def Let_def that
    by (cases "cl_endLine l") (simp_all split: sum.splits)
  have loop: "forEachThrowing (validateCodeLocation pf v engineName) ls =
      forEachThrowing (validateCodeLocation pf v' engineName)
        (map (\<lambda>l. if cl_endLine l = None then l\<lparr>cl_endColumn := None\<rparr> else l) ls)"
    if "v_ruleName v = v_ruleName v'" for v v' ls
  proof (induction ls)
    case Nil
    show ?case by simp
  next
    case (Cons l ls)
    show ?case
      using Cons.IH step [OF that, of l] by (simp split: sum.splits)
  qed
  show ?thesis
    using loop [of violation "violation\<lparr>v_codeLocations :=
            map (\<lambda>l. if cl_endLine l = None then l\<lparr>cl_endColumn := None\<rparr> else l)
              (v_codeLocations violation)\<rparr>" "v_codeLocations violation"]
    by (simp add: validateCodeLocation_def validateViolationCodeLocations_def Let_def
        split: sum.splits)
qed

text \<open>
  C10: the violation made for an engine that threw has one code location, whose accessors all
  return undefined, the primary location index 0 and no resource urls. The index is an integer
  between 0 and the number of code locations minus one, the check of the validation, which this
  violation does not go through. The output made of it has no file, line, column, end line, end
  column and path locations, and its XML element has no child for them.
\<close>

theorem unexpectedEngineErrorViolation_shape:
  \<open>Violation_getCodeLocations (UnexpectedEngineErrorViolation engineName error)
     = [UndefinedCodeLocation]
   \<and> CodeLocation_getFile pf UndefinedCodeLocation = None
   \<and> CodeLocation_getStartLine UndefinedCodeLocation = None
   \<and> CodeLocation_getStartColumn UndefinedCodeLocation = None
   \<and> CodeLocation_getEndLine UndefinedCodeLocation = None
   \<and> CodeLocation_getEndColumn UndefinedCodeLocation = None
   \<and> Violation_getPrimaryLocationIndex (UnexpectedEngineErrorViolation engineName error) = Fin 0
   \<and> Violation_getResourceUrls (UnexpectedEngineErrorViolation engineName error) = []
   \<and> isIntegerBetween
        (Violation_getPrimaryLocationIndex (UnexpectedEngineErrorViolation engineName error))
        (Fin 0)
        (minusOne (lengthOf
           (Violation_getCodeLocations (UnexpectedEngineErrorViolation engineName error))))
   \<and> createViolationOutput pf ident (UnexpectedEngineErrorViolation engineName error) runDirectory
     = Inr \<lparr>out_id = ident, out_rule = ''UnexpectedEngineError'', out_engine = engineName,
            out_severity = Critical, out_type = UnexpectedError, out_tags = [],
            out_file = None, out_line = None, out_column = None, out_endLine = None,
            out_endColumn = None, out_pathLocations = None,
            out_message = ''The engine with name "'' @ engineName
                          @ ''" threw an unexpected error: '' @ Thrown_message error,
            out_resources = []\<rparr>
   \<and> map xmlName (xmlChildren (xmlViolationNode pf
        \<lparr>out_id = ident, out_rule = ''UnexpectedEngineError'', out_engine = engineName,
         out_severity = Critical, out_type = UnexpectedError, out_tags = [],
         out_file = None, out_line = None, out_column = None, out_endLine = None,
         out_endColumn = None, out_pathLocations = None,
         out_message = ''The engine with name "'' @ engineName
                       @ ''" threw an unexpected error: '' @ Thrown_message error,
         out_resources = []\<rparr>))
     = [''rule'', ''engine'', ''severity'', ''type'', ''tags'', ''message'', ''resources'']\<close>
  by (simp add: isIntegerBetween_def number_ge_def lengthOf_def createViolationOutput_def
      getMessage_UnexpectedEngineErrorViolationMessage xmlViolationNode_def textNode_def)

section \<open>Path start points: properties\<close>

lemma semicolon_not_space: "\<not> isWhiteSpace (CHR '';'')"
  by (simp add: isWhiteSpace_def)

lemma takeWhile_run: "\<forall>c\<in>set w. P c \<Longrightarrow> \<forall>c\<in>set z. \<not> P c \<Longrightarrow> takeWhile P (w @ z) = w"
  by (induction w) (auto simp: takeWhile_eq_Nil_iff)

lemma dropWhile_run: "\<forall>c\<in>set w. P c \<Longrightarrow> \<forall>c\<in>set z. \<not> P c \<Longrightarrow> dropWhile P (w @ z) = z"
  by (induction w) (auto simp: dropWhile_eq_self_iff)

lemma dropWhile_snoc_nonempty: "dropWhile P xs \<noteq> [] \<Longrightarrow> dropWhile P (xs @ [c]) = dropWhile P xs @ [c]"
  by (induction xs) auto

lemma dropWhile_snoc_empty: "dropWhile P xs = [] \<Longrightarrow> dropWhile P (xs @ [c]) = (if P c then [] else [c])"
  by (induction xs) (auto split: if_splits)

lemma matches_decompose:
  "matchesSpacesThenSemicolons t =
     (\<exists>w z. t = w @ z \<and> w \<noteq> [] \<and> (\<forall>c\<in>set w. isWhiteSpace c) \<and> (\<forall>c\<in>set z. c = CHR '';''))"
proof
  assume "matchesSpacesThenSemicolons t"
  then have "t = takeWhile isWhiteSpace t @ dropWhile isWhiteSpace t
      \<and> takeWhile isWhiteSpace t \<noteq> []
      \<and> (\<forall>c\<in>set (takeWhile isWhiteSpace t). isWhiteSpace c)
      \<and> (\<forall>c\<in>set (dropWhile isWhiteSpace t). c = CHR '';'')"
    by (auto simp: matchesSpacesThenSemicolons_def list_all_iff dest: set_takeWhileD)
  then show "\<exists>w z. t = w @ z \<and> w \<noteq> [] \<and> (\<forall>c\<in>set w. isWhiteSpace c) \<and> (\<forall>c\<in>set z. c = CHR '';'')"
    by blast
next
  assume "\<exists>w z. t = w @ z \<and> w \<noteq> [] \<and> (\<forall>c\<in>set w. isWhiteSpace c) \<and> (\<forall>c\<in>set z. c = CHR '';'')"
  then obtain w z where t: "t = w @ z" and w: "w \<noteq> []" "\<forall>c\<in>set w. isWhiteSpace c"
    and z: "\<forall>c\<in>set z. c = CHR '';''" by blast
  have nz: "\<forall>c\<in>set z. \<not> isWhiteSpace c"
  proof
    fix c assume "c \<in> set z"
    then have "c = CHR '';''" using z by blast
    then show "\<not> isWhiteSpace c" using semicolon_not_space by blast
  qed
  have tw: "takeWhile isWhiteSpace t = w"
    unfolding t using takeWhile_run [of w isWhiteSpace z] w nz by blast
  have dw: "dropWhile isWhiteSpace t = z"
    unfolding t using dropWhile_run [of w isWhiteSpace z] w nz by blast
  have "list_all (\<lambda>c. c = CHR '';'') z"
    using z unfolding list_all_iff by blast
  then show "matchesSpacesThenSemicolons t"
    unfolding matchesSpacesThenSemicolons_def tw dw using w by blast
qed

lemma cut_when_matches:
  assumes "matchesSpacesThenSemicolons t"
  shows "cutSpacesThenSemicolons t = []"
proof -
  from assms obtain w z where t: "t = w @ z" and w: "w \<noteq> []" "\<forall>c\<in>set w. isWhiteSpace c"
    and z: "\<forall>c\<in>set z. c = CHR '';''" using matches_decompose by blast
  have nw: "\<forall>c\<in>set (rev w). \<not> c = CHR '';''"
  proof
    fix c assume "c \<in> set (rev w)"
    then have "isWhiteSpace c" using w by simp
    then show "\<not> c = CHR '';''" using semicolon_not_space by blast
  qed
  have z': "\<forall>c\<in>set (rev z). c = CHR '';''" using z by simp
  have 1: "dropWhile (\<lambda>c. c = CHR '';'') (rev t) = rev w"
    unfolding t rev_append using z' nw by (rule dropWhile_run)
  have 2: "rev w \<noteq> []" using w by simp
  have 3: "isWhiteSpace (hd (rev w))" using w by (simp add: hd_rev)
  have 4: "dropWhile isWhiteSpace (rev w) = []" using w by (simp add: dropWhile_eq_Nil_conv)
  show ?thesis
    unfolding cutSpacesThenSemicolons_def Let_def 1 using 2 3 4 by simp
qed

lemma matches_Cons_space:
  assumes "isWhiteSpace c" and "matchesSpacesThenSemicolons cs \<or> list_all (\<lambda>c. c = CHR '';'') cs"
  shows "matchesSpacesThenSemicolons (c # cs)"
proof -
  from assms(2) have "\<exists>w z. cs = w @ z \<and> (\<forall>c\<in>set w. isWhiteSpace c) \<and> (\<forall>c\<in>set z. c = CHR '';'')"
  proof
    assume "matchesSpacesThenSemicolons cs"
    then show ?thesis using matches_decompose [of cs] by blast
  next
    assume "list_all (\<lambda>c. c = CHR '';'') cs"
    then have a: "\<forall>c\<in>set cs. c = CHR '';''"
      unfolding list_all_iff .
    have b: "cs = [] @ cs" "\<forall>c\<in>set []. isWhiteSpace c" by simp_all
    show ?thesis using a b by blast
  qed
  then obtain w z where cs: "cs = w @ z" and w: "\<forall>c\<in>set w. isWhiteSpace c"
    and z: "\<forall>c\<in>set z. c = CHR '';''" by blast
  have "c # cs = (c # w) @ z" "c # w \<noteq> []" "\<forall>x\<in>set (c # w). isWhiteSpace x"
    using cs w assms(1) by simp_all
  then have "\<exists>w z. c # cs = w @ z \<and> w \<noteq> [] \<and> (\<forall>c\<in>set w. isWhiteSpace c) \<and> (\<forall>c\<in>set z. c = CHR '';'')"
    using z by blast
  then show ?thesis
    unfolding matches_decompose [of "c # cs"] .
qed

lemma cut_Cons:
  assumes nm: "\<not> matchesSpacesThenSemicolons (c # cs)"
  shows "cutSpacesThenSemicolons (c # cs) = c # cutSpacesThenSemicolons cs"
proof -
  define semi where "semi = (\<lambda>c. c = CHR '';'')"
  define r' where "r' = dropWhile semi (rev cs)"
  have cut: "cutSpacesThenSemicolons s =
      (if dropWhile semi (rev s) \<noteq> [] \<and> isWhiteSpace (hd (dropWhile semi (rev s)))
       then rev (dropWhile isWhiteSpace (dropWhile semi (rev s))) else s)" for s
    unfolding cutSpacesThenSemicolons_def Let_def semi_def by (rule refl)
  show ?thesis
  proof (cases "r' = []")
    case True
    then have allsemi: "list_all semi cs"
      unfolding r'_def by (simp add: dropWhile_eq_Nil_conv list_all_iff)
    have cnw: "\<not> isWhiteSpace c"
      using nm matches_Cons_space [of c cs] allsemi unfolding semi_def by blast
    have "dropWhile semi (rev cs @ [c]) = (if semi c then [] else [c])"
      using True unfolding r'_def by (rule dropWhile_snoc_empty)
    then have "cutSpacesThenSemicolons (c # cs) = c # cs"
      using cnw by (simp add: cut)
    moreover have "cutSpacesThenSemicolons cs = cs"
      using True by (simp add: cut r'_def)
    ultimately show ?thesis by simp
  next
    case ne: False
    then have d: "dropWhile semi (rev (c # cs)) = r' @ [c]"
      unfolding r'_def by (simp add: dropWhile_snoc_nonempty)
    show ?thesis
    proof (cases "isWhiteSpace (hd r')")
      case hw: True
      show ?thesis
      proof (cases "dropWhile isWhiteSpace r' = []")
        case True
        have "cutSpacesThenSemicolons cs = []"
          using ne hw True by (simp add: cut r'_def [symmetric])
        moreover have "matchesSpacesThenSemicolons cs"
        proof -
          have allw: "\<forall>x\<in>set r'. isWhiteSpace x" using True by (simp add: dropWhile_eq_Nil_conv)
          have cs: "rev cs = takeWhile semi (rev cs) @ r'"
            by (simp add: r'_def)
          have cs': "cs = rev r' @ rev (takeWhile semi (rev cs))"
            by (metis cs rev_append rev_rev_ident)
          have "\<forall>c\<in>set (rev (takeWhile semi (rev cs))). c = CHR '';''"
            using set_takeWhileD [of _ semi "rev cs"] unfolding semi_def by auto
          moreover have "rev r' \<noteq> []" "\<forall>c\<in>set (rev r'). isWhiteSpace c"
            using ne allw by auto
          ultimately show ?thesis
            using cs' matches_decompose [of cs] by blast
        qed
        then have cnw: "\<not> isWhiteSpace c"
          using nm matches_Cons_space [of c cs] by blast
        have "dropWhile isWhiteSpace (r' @ [c]) = [c]"
          using True cnw by (simp add: dropWhile_snoc_empty)
        then have "cutSpacesThenSemicolons (c # cs) = [c]"
          using ne hw d by (simp add: cut hd_append)
        ultimately show ?thesis by simp
      next
        case False
        then have "dropWhile isWhiteSpace (r' @ [c]) = dropWhile isWhiteSpace r' @ [c]"
          by (rule dropWhile_snoc_nonempty)
        then have "cutSpacesThenSemicolons (c # cs) = c # rev (dropWhile isWhiteSpace r')"
          using ne hw d by (simp add: cut hd_append)
        moreover have "cutSpacesThenSemicolons cs = rev (dropWhile isWhiteSpace r')"
          using ne hw by (simp add: cut r'_def [symmetric])
        ultimately show ?thesis by simp
      qed
    next
      case False
      have "cutSpacesThenSemicolons (c # cs) = c # cs"
        using ne False d by (simp add: cut hd_append)
      moreover have "cutSpacesThenSemicolons cs = cs"
        using ne False by (simp add: cut r'_def [symmetric])
      ultimately show ?thesis by simp
    qed
  qed
qed

lemma removeTrailing_closed_form:
  "removeTrailingSpacesAndSemicolons s = cutSpacesThenSemicolons s"
proof (induction s)
  case Nil
  show ?case by (simp add: cutSpacesThenSemicolons_def)
next
  case (Cons c cs)
  show ?case
    using Cons.IH cut_when_matches [of "c # cs"] cut_Cons [of c cs]
    by (cases "matchesSpacesThenSemicolons (c # cs)") simp_all
qed

lemma length_split: "length (split c s) = Suc (count_list s c)"
  by (induction s) (auto split: list.splits)

lemma split_no_separator: "c \<notin> set s \<Longrightarrow> split c s = [s]"
  by (induction s) auto

lemma split_at_first_separator: "c \<notin> set a \<Longrightarrow> split c (a @ c # b) = a # split c b"
  by (induction a) (auto simp: split_nonempty split: list.splits)

lemma mapThrowing_check:
  "mapThrowing (\<lambda>x. if \<not> P x then Inl e else Inr (g x)) xs =
     (if list_all P xs then Inr (map g xs) else Inl e)"
  by (induction xs) auto

text \<open>
  What the parsing of a path start point computes. A string with more than one \<open>#\<close> raises
  the format error. For a string \<open>file#methods\<close> whose file part passes
  \<open>validatePathStartPointFile\<close>, the method part is cut by the regular expression, which removes
  the trailing semicolons together with the white space before them, and only if there is white
  space before them; the rest is split at the semicolons; if every part matches
  \<open>^[A-Za-z][A-Za-z0-9_]*$\<close>, each is one start point with the same file, otherwise the format
  error is raised, with the input string in its message.
\<close>

lemma extractEnginePathStartPoints_eq:
  "(1 < count_list pathStartPointStr (CHR ''#'') \<longrightarrow>
      extractEnginePathStartPoints pf pathStartPointStr =
        Inl (Failure InvalidPathStartPoint [S pathStartPointStr]))
   \<and> (CHR ''#'' \<notin> set file \<and> CHR ''#'' \<notin> set methods
        \<and> validatePathStartPointFile pf file (file @ ''#'' @ methods) = Inr absFile \<longrightarrow>
      extractEnginePathStartPoints pf (file @ ''#'' @ methods) =
        (if list_all isValidMethodName (split (CHR '';'') (cutSpacesThenSemicolons methods))
         then Inr (map (\<lambda>methodName. \<lparr>pp_file = absFile, pp_methodName = Some methodName\<rparr>)
                     (split (CHR '';'') (cutSpacesThenSemicolons methods)))
         else Inl (Failure InvalidPathStartPoint [S (file @ ''#'' @ methods)])))
   \<and> removeTrailingSpacesAndSemicolons methods = cutSpacesThenSemicolons methods"
proof -
  have 1: "extractEnginePathStartPoints pf pathStartPointStr =
        Inl (Failure InvalidPathStartPoint [S pathStartPointStr])"
    if "1 < count_list pathStartPointStr (CHR ''#'')"
    using that by (simp add: extractEnginePathStartPoints_def Let_def length_split)
  have 2: "extractEnginePathStartPoints pf (file @ ''#'' @ methods) =
        (if list_all isValidMethodName (split (CHR '';'') (cutSpacesThenSemicolons methods))
         then Inr (map (\<lambda>methodName. \<lparr>pp_file = absFile, pp_methodName = Some methodName\<rparr>)
                     (split (CHR '';'') (cutSpacesThenSemicolons methods)))
         else Inl (Failure InvalidPathStartPoint [S (file @ ''#'' @ methods)]))"
    if f: "CHR ''#'' \<notin> set file" and m: "CHR ''#'' \<notin> set methods"
      and v: "validatePathStartPointFile pf file (file @ ''#'' @ methods) = Inr absFile"
  proof -
    have parts: "split (CHR ''#'') (file @ ''#'' @ methods) = [file, methods]"
      using split_at_first_separator [OF f, of methods] split_no_separator [OF m] by simp
    show ?thesis
      unfolding extractEnginePathStartPoints_def Let_def parts
      using v by (simp add: mapThrowing_check removeTrailing_closed_form)
  qed
  show ?thesis
    using 1 2 removeTrailing_closed_form [of methods] by blast
qed

lemma extractEnginePathStartPoints_example:
  "1 < count_list ''test/stubs.ts#method1#method2'' (CHR ''#'')
   \<and> extractEnginePathStartPoints posix ''test/stubs.ts#method1#method2'' =
       Inl (Failure InvalidPathStartPoint [S ''test/stubs.ts#method1#method2''])
   \<and> CHR ''#'' \<notin> set ''test/stubs.ts'' \<and> CHR ''#'' \<notin> set ''method1;method2 ;''
   \<and> validatePathStartPointFile posix ''test/stubs.ts'' (''test/stubs.ts'' @ ''#'' @ ''method1;method2 ;'')
       = Inr ''/work/test/stubs.ts''
   \<and> extractEnginePathStartPoints posix (''test/stubs.ts'' @ ''#'' @ ''method1;method2 ;'') =
       Inr [\<lparr>pp_file = ''/work/test/stubs.ts'', pp_methodName = Some ''method1''\<rparr>,
            \<lparr>pp_file = ''/work/test/stubs.ts'', pp_methodName = Some ''method2''\<rparr>]"
  using extractEnginePathStartPoints_eq
    [of "''test/stubs.ts#method1#method2''" posix "''test/stubs.ts''" "''method1;method2 ;''"
        "''/work/test/stubs.ts''"]
  by (simp add: validatePathStartPointFile_def toAbsolutePath_def posix_def posixResolve_def
      posixFolders_def posixFiles_def startsWith_def cutSpacesThenSemicolons_def isWhiteSpace_def
      isAsciiLetter_def isAsciiDigit_def)

text \<open>
  C6: trailing semicolons are to be trimmed from the method part, and the code misses it. The
  path start point \<open>test/stubs.ts#method1;\<close> names an existing file and, once the trailing
  semicolon is trimmed, the one valid method name \<open>method1\<close>. The regular expression of the code,
  which its name says is for trailing spaces and semicolons, only matches semicolons that follow
  white space: the method part keeps its semicolon, the split gives \<open>method1\<close> and the empty
  string, and the format error is raised. The same happens for \<open>method1;method2;\<close> and for
  \<open>method1; \<close>, whereas \<open>method1\<close> and \<open>method1 ;\<close>, with white space before the semicolon,
  give the start point of \<open>method1\<close>. So \<open>run\<close> ends with the format error for the first and
  has the start point in its run options for the last.
\<close>

theorem extractEnginePathStartPoints_keeps_trailing_semicolon:
  "extractEnginePathStartPoints posix ''test/stubs.ts#method1;'' =
       Inl (Failure InvalidPathStartPoint [S ''test/stubs.ts#method1;''])
   \<and> removeTrailingSpacesAndSemicolons ''method1;'' = ''method1;''
   \<and> trimTrailingWhitespaceAndSemicolons ''method1;'' = ''method1''
   \<and> split (CHR '';'') ''method1;'' = [''method1'', '''']
   \<and> split (CHR '';'') ''method1'' = [''method1'']
   \<and> isValidMethodName ''method1''
   \<and> extractEnginePathStartPoints posix ''test/stubs.ts#method1'' =
       Inr [\<lparr>pp_file = ''/work/test/stubs.ts'', pp_methodName = Some ''method1''\<rparr>]
   \<and> extractEnginePathStartPoints posix ''test/stubs.ts#method1 ;'' =
       Inr [\<lparr>pp_file = ''/work/test/stubs.ts'', pp_methodName = Some ''method1''\<rparr>]
   \<and> extractEnginePathStartPoints posix ''test/stubs.ts#method1;method2;'' =
       Inl (Failure InvalidPathStartPoint [S ''test/stubs.ts#method1;method2;''])
   \<and> extractEnginePathStartPoints posix ''test/stubs.ts#method1; '' =
       Inl (Failure InvalidPathStartPoint [S ''test/stubs.ts#method1; ''])
   \<and> snd (run posix (exampleAnalyzer [sampleViolation]) exampleSelection
            \<lparr>ro_workspaceFiles = [''test''],
             ro_pathStartPoints = Some [''test/stubs.ts#method1;'']\<rparr>) =
       Inl (Failure InvalidPathStartPoint [S ''test/stubs.ts#method1;''])
   \<and> extractEngineRunOptions posix
         \<lparr>ro_workspaceFiles = [''test''],
          ro_pathStartPoints = Some [''test/stubs.ts#method1 ;'']\<rparr> =
       Inr \<lparr>workspaceFiles = [''/work/test''],
            pathStartPoints =
              Some [\<lparr>pp_file = ''/work/test/stubs.ts'', pp_methodName = Some ''method1''\<rparr>]\<rparr>"
  by (simp add: run_def extractEngineRunOptions_def extractEnginePathStartPoints_def
      validatePathStartPointFile_def validateFileOrFolder_def toAbsolutePath_def
      removeRedundantPaths_def validatePathStartPointsAreInsideWorkspace_def
      posix_def posixResolve_def posixFolders_def posixFiles_def startsWith_def
      matchesSpacesThenSemicolons_def isWhiteSpace_def isAsciiLetter_def isAsciiDigit_def
      trimTrailingWhitespaceAndSemicolons_def Let_def)

section \<open>The run: properties\<close>

lemma engines_emitEvent [simp]: "engines (emitEvent ca ev) = engines ca"
  by (simp add: emitEvent_def)

lemma engines_emitLogEvent [simp]: "engines (emitLogEvent ca l m as) = engines ca"
  by (simp add: emitLogEvent_def)

lemma outcomeOf_engines:
  "engines ca = engines ca' \<Longrightarrow> outcomeOf pf ca sel opts e = outcomeOf pf ca' sel opts e"
  by (simp add: outcomeOf_def runEngineAndValidateResults_def Let_def getEngine_def)

lemma engines_runEngineAndValidateResults:
  "engines (fst (runEngineAndValidateResults pf ca e sel opts)) = engines ca"
  by (simp add: runEngineAndValidateResults_def Let_def)

lemma outcomeOf_getEngineName:
  "outcomeOf pf ca sel opts e = Inr r \<Longrightarrow> EngineRunResults_getEngineName r = e"
  by (auto simp: outcomeOf_def runEngineAndValidateResults_def Let_def split: sum.splits option.splits)

lemma runLoop_step:
  "runLoop pf ca sel opts rr (e # rest) =
     (case outcomeOf pf ca sel opts e of
        Inl f \<Rightarrow> (fst (runEngineAndValidateResults pf (emitEvent ca (EngineProgressEvent e (Fin 0))) e sel opts), Inl f)
      | Inr r \<Rightarrow>
          runLoop pf
            (emitEvent
               (emitEvent (fst (runEngineAndValidateResults pf (emitEvent ca (EngineProgressEvent e (Fin 0))) e sel opts))
                  (EngineProgressEvent e (Fin 100)))
               (EngineResultsEvent r))
            sel opts (addEngineRunResults rr r) rest)"
proof -
  have "outcomeOf pf ca sel opts e = outcomeOf pf (emitEvent ca (EngineProgressEvent e (Fin 0))) sel opts e"
    by (rule outcomeOf_engines) simp
  then show ?thesis
    by (cases "runEngineAndValidateResults pf (emitEvent ca (EngineProgressEvent e (Fin 0))) e sel opts")
       (auto simp: outcomeOf_def Let_def split: sum.splits)
qed

lemma runLoop_fails:
  "e \<in> set names \<Longrightarrow> outcomeOf pf ca sel opts e = Inl f \<Longrightarrow>
   \<exists>ca' f'. runLoop pf ca sel opts rr names = (ca', Inl f')"
proof (induction names arbitrary: ca rr)
  case Nil
  then show ?case by simp
next
  case (Cons n names)
  show ?case
  proof (cases "outcomeOf pf ca sel opts n")
    case (Inl f')
    then show ?thesis by (simp add: runLoop_step del: runLoop.simps)
  next
    case (Inr r)
    then have ne: "e \<noteq> n" using Cons.prems(2) by auto
    then have mem: "e \<in> set names" using Cons.prems(1) by simp
    let ?ca' = "emitEvent
               (emitEvent (fst (runEngineAndValidateResults pf (emitEvent ca (EngineProgressEvent n (Fin 0))) n sel opts))
                  (EngineProgressEvent n (Fin 100)))
               (EngineResultsEvent r)"
    have "engines ?ca' = engines ca" by (simp add: engines_runEngineAndValidateResults)
    then have "outcomeOf pf ?ca' sel opts e = Inl f"
      using Cons.prems(2) outcomeOf_engines [of ?ca' ca pf sel opts e] by simp
    from Cons.IH [OF mem this] show ?thesis
      using Inr by (simp add: runLoop_step del: runLoop.simps)
  qed
qed

lemma runLoop_succeeds:
  "\<forall>e\<in>set names. \<exists>r. outcomeOf pf ca sel opts e = Inr r \<Longrightarrow>
   \<exists>ca'. runLoop pf ca sel opts rr names =
     (ca', Inr (foldl addEngineRunResults rr (map (\<lambda>e. projr (outcomeOf pf ca sel opts e)) names)))"
proof (induction names arbitrary: ca rr)
  case Nil
  then show ?case by simp
next
  case (Cons n names)
  then obtain r where r: "outcomeOf pf ca sel opts n = Inr r" by auto
  let ?ca' = "emitEvent
               (emitEvent (fst (runEngineAndValidateResults pf (emitEvent ca (EngineProgressEvent n (Fin 0))) n sel opts))
                  (EngineProgressEvent n (Fin 100)))
               (EngineResultsEvent r)"
  have eng: "engines ?ca' = engines ca" by (simp add: engines_runEngineAndValidateResults)
  have same: "outcomeOf pf ?ca' sel opts e = outcomeOf pf ca sel opts e" for e
    using outcomeOf_engines [OF eng] .
  have "\<forall>e\<in>set names. \<exists>r. outcomeOf pf ?ca' sel opts e = Inr r"
    using Cons.prems by (simp add: same)
  from Cons.IH [OF this, of "addEngineRunResults rr r"] show ?case
    using r by (simp add: runLoop_step same del: runLoop.simps)
qed

lemma map_of_Map_set: "map_of (Map_set m k v) k' = (if k' = k then Some v else map_of m k')"
  by (induction m k v rule: Map_set.induct) auto

lemma set_fst_Map_set: "fst ` set (Map_set m k v) = insert k (fst ` set m)"
  by (induction m k v rule: Map_set.induct) auto

lemma map_of_foldl_addEngineRunResults:
  "\<forall>e\<in>set names. EngineRunResults_getEngineName (g e) = e \<Longrightarrow>
   map_of (engineRunResultsMap (foldl addEngineRunResults rr (map g names))) e =
     (if e \<in> set names then Some (g e) else map_of (engineRunResultsMap rr) e)"
  by (induction names arbitrary: rr) (auto simp: addEngineRunResults_def map_of_Map_set)

lemma names_foldl_addEngineRunResults:
  "\<forall>e\<in>set names. EngineRunResults_getEngineName (g e) = e \<Longrightarrow>
   set (RunResults_getEngineNames (foldl addEngineRunResults rr (map g names))) =
     set (RunResults_getEngineNames rr) \<union> set names"
  by (induction names arbitrary: rr)
     (auto simp: addEngineRunResults_def set_fst_Map_set RunResults_getEngineNames_def)

lemma exampleSelection_eq: "selectRules (allRules (exampleAnalyzer rs)) [] = exampleSelection"
  by (simp add: selectRules_def exampleAnalyzer_def exampleSelection_def matchesRuleSelector_def
      selectables_def stub1RuleA_def stub1RuleD_def toLowerCase_def toLowerCaseChar_def
      isUpperCase_def addRule_def RuleSelection_has_def Let_def)

lemma exampleEngineRunOptions_eq:
  "extractEngineRunOptions posix exampleRunOptions = Inr exampleEngineRunOptions"
  by (simp add: extractEngineRunOptions_def exampleRunOptions_def exampleEngineRunOptions_def
      posix_def posixResolve_def posixFolders_def posixFiles_def validateFileOrFolder_def
      toAbsolutePath_def removeRedundantPaths_def startsWith_def
      validatePathStartPointsAreInsideWorkspace_def)

lemma sampleViolation_valid:
  "validateEngineRunResults posix ''stubEngine1'' \<lparr>violations = [sampleViolation]\<rparr> exampleSelection
     = Inr ()"
  by (simp add: validateEngineRunResults_def validateViolation_def validateViolationRuleName_def
      getRule_def getRulesFor_def exampleSelection_def stub1RuleA_def sampleViolation_def
      validateViolationPrimaryLocationIndex_def isIntegerBetween_def number_ge_def lengthOf_def
      validateViolationCodeLocations_def validateCodeLocation_def toAbsolutePath_def posix_def
      posixResolve_def posixFolders_def posixFiles_def startsWith_def isValidLineOrColumn_def
      MAX_VALUE_def)

lemma getMessage_InvalidPrimaryLocationIndex:
  \<open>getMessage pf EngineReturnedViolationWithInvalidPrimaryLocationIndex
       [S engineName, S ruleName, N index, N len] =
     Inr (''Engine failure. The engine "'' @ engineName @ ''" returned a violation for rule "''
          @ ruleName @ ''" that contains an out of bounds primary location index value of ''
          @ String_number pf index @ ''. Expected a non-negative integer that is less than ''
          @ String_number pf len @ ''.'')\<close>
  by (simp add: getMessage_def)

lemma isIntegerBetween_index:
  "isIntegerBetween index (Fin 0) (minusOne (lengthOf xs)) =
     (\<exists>i<length xs. index = Fin (of_nat i))"
proof (cases index)
  case (Fin r)
  show ?thesis
  proof
    assume "isIntegerBetween index (Fin 0) (minusOne (lengthOf xs))"
    then have r: "0 \<le> r" "r \<le> of_nat (length xs) - 1" "rat_of_int \<lfloor>r\<rfloor> = r"
      by (simp_all add: Fin isIntegerBetween_def number_ge_def lengthOf_def)
    have "0 \<le> \<lfloor>r\<rfloor>" using r(1) by simp
    then have i: "r = of_nat (nat \<lfloor>r\<rfloor>)" using r(3) by (metis of_int_of_nat_eq int_nat_eq)
    have "rat_of_int \<lfloor>r\<rfloor> < of_nat (length xs)" using r(2,3) by linarith
    then have "\<lfloor>r\<rfloor> < int (length xs)" by (metis of_int_of_nat_eq of_int_less_iff)
    then have "nat \<lfloor>r\<rfloor> < length xs" using \<open>0 \<le> \<lfloor>r\<rfloor>\<close> by linarith
    then show "\<exists>i<length xs. index = Fin (of_nat i)" using i Fin by blast
  next
    assume "\<exists>i<length xs. index = Fin (of_nat i)"
    then obtain i where i: "i < length xs" "r = of_nat i" using Fin by auto
    have "Suc i \<le> length xs" using i(1) by simp
    then have "rat_of_nat (Suc i) \<le> rat_of_nat (length xs)" by (simp only: of_nat_le_iff)
    then have "rat_of_nat i \<le> of_nat (length xs) - 1" by simp
    then show "isIntegerBetween index (Fin 0) (minusOne (lengthOf xs))"
      using i by (simp add: Fin isIntegerBetween_def number_ge_def lengthOf_def)
  qed
qed (simp_all add: isIntegerBetween_def number_ge_def)

lemma forEachThrowing_fails:
  "x \<in> set xs \<Longrightarrow> f x = Inl e \<Longrightarrow> \<exists>e'. forEachThrowing f xs = Inl e'"
  by (induction xs) (auto split: sum.splits)

lemma outcomeOf_cases:
  "outcomeOf pf ca sel opts e =
     (case (case getEngine ca e of
              None \<Rightarrow> Inl runRulesOfUndefined
            | Some engine \<Rightarrow> eng_runRules engine (rulesToRunFor sel e) opts) of
        Inl error \<Rightarrow> Inr (UnexpectedErrorEngineRunResults e error)
      | Inr api \<Rightarrow>
          (case validateEngineRunResults pf e api sel of
             Inl f \<Rightarrow> Inl f
           | Inr u \<Rightarrow> Inr (EngineRunResultsImpl e api sel)))"
  by (simp add: outcomeOf_def runEngineAndValidateResults_def Let_def getEngine_def)

lemma validateViolation_bad_index:
  assumes "\<not> (\<exists>i<length (v_codeLocations violation). v_primaryLocationIndex violation = Fin (of_nat i))"
  shows "\<exists>failure. validateViolation pf engineName sel violation = Inl failure"
  using assms
  by (auto simp: validateViolation_def validateViolationPrimaryLocationIndex_def
      isIntegerBetween_index split: sum.splits)

lemma run_fails_if_outcome_fails:
  assumes "e \<in> set (getEngineNames sel)"
    and "\<forall>opts. extractEngineRunOptions pf runOptions = Inr opts \<longrightarrow>
           (\<exists>f. outcomeOf pf ca sel opts e = Inl f)"
  shows "\<exists>ca' failure. run pf ca sel runOptions = (ca', Inl failure)"
proof (cases "extractEngineRunOptions pf runOptions")
  case (Inl f)
  then show ?thesis by (simp add: run_def)
next
  case (Inr opts)
  then obtain f where f: "outcomeOf pf ca sel opts e = Inl f" using assms(2) by blast
  let ?ca1 = "emitLogEvent ca LogDebug RunningWithRunOptions [J (json_of_EngineRunOptions opts)]"
  have "outcomeOf pf ?ca1 sel opts e = Inl f"
    using f outcomeOf_engines [of ?ca1 ca pf sel opts e] by simp
  from runLoop_fails [OF assms(1) this] show ?thesis
    using Inr by (simp add: run_def)
qed

lemma validateViolationPrimaryLocationIndex_eq:
  "validateViolationPrimaryLocationIndex v engineName =
     (if \<exists>i<length (v_codeLocations v). v_primaryLocationIndex v = Fin (of_nat i)
      then Inr ()
      else Inl (Failure EngineReturnedViolationWithInvalidPrimaryLocationIndex
                  [S engineName, S (v_ruleName v), N (v_primaryLocationIndex v),
                   N (lengthOf (v_codeLocations v))]))"
  by (simp add: validateViolationPrimaryLocationIndex_def isIntegerBetween_index)

lemma index_equal_to_length:
  "validateViolationPrimaryLocationIndex
        (violation\<lparr>v_primaryLocationIndex := lengthOf (v_codeLocations violation)\<rparr>) engineName =
       Inl (Failure EngineReturnedViolationWithInvalidPrimaryLocationIndex
              [S engineName, S (v_ruleName violation), N (lengthOf (v_codeLocations violation)),
               N (lengthOf (v_codeLocations violation))])"
  by (simp add: validateViolationPrimaryLocationIndex_eq lengthOf_def)

lemma run_fails_on_bad_index:
  assumes name: "engineName \<in> set (getEngineNames ruleSelection)"
      and eng: "getEngine ca engineName = Some engine"
      and res: "\<forall>opts. extractEngineRunOptions pf runOptions = Inr opts \<longrightarrow>
              eng_runRules engine (rulesToRunFor ruleSelection engineName) opts = Inr results"
      and mem: "violation \<in> set (violations results)"
      and bad: "\<not> (\<exists>i<length (v_codeLocations violation).
                  v_primaryLocationIndex violation = Fin (of_nat i))"
  shows "\<exists>ca' failure. run pf ca ruleSelection runOptions = (ca', Inl failure)"
proof (rule run_fails_if_outcome_fails [OF name], intro allI impI)
  fix opts assume "extractEngineRunOptions pf runOptions = Inr opts"
  then have r: "eng_runRules engine (rulesToRunFor ruleSelection engineName) opts = Inr results"
    using res by blast
  obtain f where f: "validateViolation pf engineName ruleSelection violation = Inl f"
    using validateViolation_bad_index [OF bad, of pf engineName ruleSelection] by blast
  obtain f' where f': "validateEngineRunResults pf engineName results ruleSelection = Inl f'"
    unfolding validateEngineRunResults_def
    using forEachThrowing_fails [OF mem, of "validateViolation pf engineName ruleSelection" f, OF f]
    by blast
  show "\<exists>f. outcomeOf pf ca ruleSelection opts engineName = Inl f"
    by (simp add: outcomeOf_cases eng r f')
qed

text \<open>
  C4: the validation of the primary location index lets a violation pass exactly when the
  index is an integer from 0 to the number of code locations minus one; otherwise it raises
  the error whose message names the engine, the rule, the index and the number of code
  locations, as it does for an index equal to the number of code locations. When an engine of
  the selection returns, without throwing, a violation with such an index, \<open>run\<close> ends with an
  exception and returns no results.
\<close>

theorem invalid_primaryLocationIndex_is_fatal:
  \<open>validateViolationPrimaryLocationIndex violation engineName =
     (if \<exists>i<length (v_codeLocations violation). v_primaryLocationIndex violation = Fin (of_nat i)
      then Inr ()
      else Inl (Failure EngineReturnedViolationWithInvalidPrimaryLocationIndex
                  [S engineName, S (v_ruleName violation), N (v_primaryLocationIndex violation),
                   N (lengthOf (v_codeLocations violation))]))
   \<and> validateViolationPrimaryLocationIndex
        (violation\<lparr>v_primaryLocationIndex := lengthOf (v_codeLocations violation)\<rparr>) engineName =
       Inl (Failure EngineReturnedViolationWithInvalidPrimaryLocationIndex
              [S engineName, S (v_ruleName violation), N (lengthOf (v_codeLocations violation)),
               N (lengthOf (v_codeLocations violation))])
   \<and> getMessage pf EngineReturnedViolationWithInvalidPrimaryLocationIndex
        [S engineName, S (v_ruleName violation), N (v_primaryLocationIndex violation),
         N (lengthOf (v_codeLocations violation))] =
       Inr (''Engine failure. The engine "'' @ engineName @ ''" returned a violation for rule "''
            @ v_ruleName violation
            @ ''" that contains an out of bounds primary location index value of ''
            @ String_number pf (v_primaryLocationIndex violation)
            @ ''. Expected a non-negative integer that is less than ''
            @ String_number pf (lengthOf (v_codeLocations violation)) @ ''.'')
   \<and> (engineName \<in> set (getEngineNames ruleSelection)
        \<and> getEngine ca engineName = Some engine
        \<and> (\<forall>opts. extractEngineRunOptions pf runOptions = Inr opts \<longrightarrow>
              eng_runRules engine (rulesToRunFor ruleSelection engineName) opts = Inr results)
        \<and> violation \<in> set (violations results)
        \<and> \<not> (\<exists>i<length (v_codeLocations violation).
                  v_primaryLocationIndex violation = Fin (of_nat i))
      \<longrightarrow> (\<exists>ca' failure. run pf ca ruleSelection runOptions = (ca', Inl failure)))\<close>
proof (intro conjI impI)
  show "validateViolationPrimaryLocationIndex violation engineName =
     (if \<exists>i<length (v_codeLocations violation). v_primaryLocationIndex violation = Fin (of_nat i)
      then Inr ()
      else Inl (Failure EngineReturnedViolationWithInvalidPrimaryLocationIndex
                  [S engineName, S (v_ruleName violation), N (v_primaryLocationIndex violation),
                   N (lengthOf (v_codeLocations violation))]))"
    by (rule validateViolationPrimaryLocationIndex_eq)
  show "validateViolationPrimaryLocationIndex
        (violation\<lparr>v_primaryLocationIndex := lengthOf (v_codeLocations violation)\<rparr>) engineName =
       Inl (Failure EngineReturnedViolationWithInvalidPrimaryLocationIndex
              [S engineName, S (v_ruleName violation), N (lengthOf (v_codeLocations violation)),
               N (lengthOf (v_codeLocations violation))])"
    by (rule index_equal_to_length)
  show \<open>getMessage pf EngineReturnedViolationWithInvalidPrimaryLocationIndex
        [S engineName, S (v_ruleName violation), N (v_primaryLocationIndex violation),
         N (lengthOf (v_codeLocations violation))] =
       Inr (''Engine failure. The engine "'' @ engineName @ ''" returned a violation for rule "''
            @ v_ruleName violation
            @ ''" that contains an out of bounds primary location index value of ''
            @ String_number pf (v_primaryLocationIndex violation)
            @ ''. Expected a non-negative integer that is less than ''
            @ String_number pf (lengthOf (v_codeLocations violation)) @ ''.'')\<close>
    by (rule getMessage_InvalidPrimaryLocationIndex)
  assume "engineName \<in> set (getEngineNames ruleSelection)
        \<and> getEngine ca engineName = Some engine
        \<and> (\<forall>opts. extractEngineRunOptions pf runOptions = Inr opts \<longrightarrow>
              eng_runRules engine (rulesToRunFor ruleSelection engineName) opts = Inr results)
        \<and> violation \<in> set (violations results)
        \<and> \<not> (\<exists>i<length (v_codeLocations violation).
                  v_primaryLocationIndex violation = Fin (of_nat i))"
  then show "\<exists>ca' failure. run pf ca ruleSelection runOptions = (ca', Inl failure)"
    by (elim conjE) (rule run_fails_on_bad_index)
qed

lemma example_run_bad_index:
  "snd (run posix (exampleAnalyzer [badIndexViolation]) exampleSelection exampleRunOptions) =
     Inl (Failure EngineReturnedViolationWithInvalidPrimaryLocationIndex
            [S ''stubEngine1'', S ''stub1RuleA'', N (Fin 1), N (Fin 1)])"
  by (simp add: run_def exampleEngineRunOptions_eq exampleSelection_def getEngineNames_def
      runEngineAndValidateResults_def Let_def getEngine_def emitLogEvent_def emitEvent_def
      exampleAnalyzer_def throwingEngine_def stubEngine1_def rulesToRunFor_def getRulesFor_def
      addEngineRunResults_def validateEngineRunResults_def validateViolation_def
      validateViolationRuleName_def getRule_def stub1RuleA_def badIndexViolation_def
      sampleViolation_def validateViolationPrimaryLocationIndex_def isIntegerBetween_def
      number_ge_def lengthOf_def)

theorem invalid_primaryLocationIndex_is_fatal_witness:
  \<open>''stubEngine1'' \<in> set (getEngineNames exampleSelection)
   \<and> getEngine (exampleAnalyzer [badIndexViolation]) ''stubEngine1''
       = Some (stubEngine1 [badIndexViolation])
   \<and> badIndexViolation \<in> set (violations \<lparr>violations = [badIndexViolation]\<rparr>)
   \<and> \<not> (\<exists>i<length (v_codeLocations badIndexViolation).
            v_primaryLocationIndex badIndexViolation = Fin (of_nat i))
   \<and> (\<exists>ca' failure.
         run posix (exampleAnalyzer [badIndexViolation]) exampleSelection exampleRunOptions
           = (ca', Inl failure))
   \<and> snd (run posix (exampleAnalyzer [badIndexViolation]) exampleSelection exampleRunOptions) =
       Inl (Failure EngineReturnedViolationWithInvalidPrimaryLocationIndex
              [S ''stubEngine1'', S ''stub1RuleA'', N (Fin 1), N (Fin 1)])
   \<and> getMessage posix EngineReturnedViolationWithInvalidPrimaryLocationIndex
         [S ''stubEngine1'', S ''stub1RuleA'', N (Fin 1), N (Fin 1)] =
       Inr (''Engine failure. The engine "stubEngine1" returned a violation for rule ''
            @ ''"stub1RuleA" that contains an out of bounds primary location index value of 1. ''
            @ ''Expected a non-negative integer that is less than 1.'')\<close>
proof -
  have a: "''stubEngine1'' \<in> set (getEngineNames exampleSelection)"
    by (simp add: getEngineNames_def exampleSelection_def)
  have b: "getEngine (exampleAnalyzer [badIndexViolation]) ''stubEngine1''
       = Some (stubEngine1 [badIndexViolation])"
    by (simp add: getEngine_def exampleAnalyzer_def)
  have c: "\<forall>opts. extractEngineRunOptions posix exampleRunOptions = Inr opts \<longrightarrow>
      eng_runRules (stubEngine1 [badIndexViolation]) (rulesToRunFor exampleSelection ''stubEngine1'') opts
        = Inr \<lparr>violations = [badIndexViolation]\<rparr>"
    by (simp add: stubEngine1_def)
  have d: "badIndexViolation \<in> set (violations \<lparr>violations = [badIndexViolation]\<rparr>)"
    by simp
  have e: "\<not> (\<exists>i<length (v_codeLocations badIndexViolation).
            v_primaryLocationIndex badIndexViolation = Fin (of_nat i))"
    by (simp add: badIndexViolation_def sampleViolation_def)
  have f: "length (v_codeLocations badIndexViolation) = 1" "v_ruleName badIndexViolation = ''stub1RuleA''"
    "v_primaryLocationIndex badIndexViolation = Fin 1"
    by (simp_all add: badIndexViolation_def sampleViolation_def)
  have g: "String_number posix (Fin 1) = ''1''" by (simp add: posix_def)
  from invalid_primaryLocationIndex_is_fatal
    [where violation = badIndexViolation and engineName = "''stubEngine1''" and pf = posix
       and ruleSelection = exampleSelection and ca = "exampleAnalyzer [badIndexViolation]"
       and engine = "stubEngine1 [badIndexViolation]" and runOptions = exampleRunOptions
       and results = "\<lparr>violations = [badIndexViolation]\<rparr>"]
  have "(\<exists>ca' failure.
         run posix (exampleAnalyzer [badIndexViolation]) exampleSelection exampleRunOptions
           = (ca', Inl failure))"
    and \<open>getMessage posix EngineReturnedViolationWithInvalidPrimaryLocationIndex
         [S ''stubEngine1'', S ''stub1RuleA'', N (Fin 1), N (Fin 1)] =
       Inr (''Engine failure. The engine "stubEngine1" returned a violation for rule ''
            @ ''"stub1RuleA" that contains an out of bounds primary location index value of 1. ''
            @ ''Expected a non-negative integer that is less than 1.'')\<close>
    using a b c d e by (simp_all add: f g lengthOf_def)
  then show ?thesis
    using a b d e example_run_bad_index by - (intro conjI; assumption)
qed

lemma run_succeeds:
  assumes opts: "extractEngineRunOptions pf runOptions = Inr opts"
    and ok: "\<forall>e\<in>set (getEngineNames sel). \<exists>r. outcomeOf pf ca sel opts e = Inr r"
  shows "\<exists>ca' rr. run pf ca sel runOptions = (ca', Inr rr)
           \<and> set (RunResults_getEngineNames rr) = set (getEngineNames sel)
           \<and> (\<forall>e\<in>set (getEngineNames sel). \<forall>r. outcomeOf pf ca sel opts e = Inr r \<longrightarrow>
                  getEngineRunResults rr e = Inr r)"
proof -
  let ?ca1 = "emitLogEvent ca LogDebug RunningWithRunOptions [J (json_of_EngineRunOptions opts)]"
  let ?empty = "\<lparr>runDir = cwd pf @ [sep pf], engineRunResultsMap = []\<rparr>"
  let ?g = "\<lambda>e. projr (outcomeOf pf ?ca1 sel opts e)"
  have same: "outcomeOf pf ?ca1 sel opts e = outcomeOf pf ca sel opts e" for e
    by (rule outcomeOf_engines) simp
  have ok1: "\<forall>e\<in>set (getEngineNames sel). \<exists>r. outcomeOf pf ?ca1 sel opts e = Inr r"
    using ok by (simp add: same)
  from runLoop_succeeds [OF ok1, of ?empty] obtain ca' where
    loop: "runLoop pf ?ca1 sel opts ?empty (getEngineNames sel) =
             (ca', Inr (foldl addEngineRunResults ?empty (map ?g (getEngineNames sel))))"
    by blast
  let ?final = "foldl addEngineRunResults ?empty (map ?g (getEngineNames sel))"
  have nm: "\<forall>e\<in>set (getEngineNames sel). EngineRunResults_getEngineName (?g e) = e"
  proof
    fix e assume "e \<in> set (getEngineNames sel)"
    then obtain r where r: "outcomeOf pf ?ca1 sel opts e = Inr r" using ok1 by blast
    then show "EngineRunResults_getEngineName (?g e) = e"
      using outcomeOf_getEngineName [OF r] by simp
  qed
  have run: "run pf ca sel runOptions = (ca', Inr ?final)"
    using opts loop by (simp add: run_def)
  have names: "set (RunResults_getEngineNames ?final) = set (getEngineNames sel)"
    using names_foldl_addEngineRunResults [OF nm, where rr = ?empty]
    by (simp add: RunResults_getEngineNames_def)
  have get: "getEngineRunResults ?final e = Inr r"
    if "e \<in> set (getEngineNames sel)" "outcomeOf pf ca sel opts e = Inr r" for e r
    using map_of_foldl_addEngineRunResults [OF nm, where rr = ?empty and e = e] that
    by (simp add: getEngineRunResults_def same)
  show ?thesis
    using run names get by blast
qed

lemma run_with_engines_that_throw:
  assumes "extractEngineRunOptions pf runOptions = Inr opts"
    and "\<forall>e\<in>set (getEngineNames ruleSelection). \<forall>engine results.
           getEngine ca e = Some engine
           \<longrightarrow> eng_runRules engine (rulesToRunFor ruleSelection e) opts = Inr results
           \<longrightarrow> validateEngineRunResults pf e results ruleSelection = Inr ()"
  shows \<open>\<exists>ca' runResults.
           run pf ca ruleSelection runOptions = (ca', Inr runResults)
           \<and> set (RunResults_getEngineNames runResults) = set (getEngineNames ruleSelection)
           \<and> (\<forall>e\<in>set (getEngineNames ruleSelection). \<forall>engine error.
                 getEngine ca e = Some engine
                 \<longrightarrow> eng_runRules engine (rulesToRunFor ruleSelection e) opts = Inl error
                 \<longrightarrow> getEngineRunResults runResults e = Inr (UnexpectedErrorEngineRunResults e error)
                     \<and> EngineRunResults_getViolations (UnexpectedErrorEngineRunResults e error)
                         = Inr [UnexpectedEngineErrorViolation e error]
                     \<and> Rule_getSeverityLevel
                           (Violation_getRule (UnexpectedEngineErrorViolation e error)) = Critical
                     \<and> Rule_getType
                           (Violation_getRule (UnexpectedEngineErrorViolation e error)) = UnexpectedError
                     \<and> Violation_getMessage pf (UnexpectedEngineErrorViolation e error)
                         = Inr (''The engine with name "'' @ e
                                @ ''" threw an unexpected error: '' @ Thrown_message error))
           \<and> (\<forall>e\<in>set (getEngineNames ruleSelection). \<forall>engine results.
                 getEngine ca e = Some engine
                 \<longrightarrow> eng_runRules engine (rulesToRunFor ruleSelection e) opts = Inr results
                 \<longrightarrow> getEngineRunResults runResults e
                       = Inr (EngineRunResultsImpl e results ruleSelection))\<close>
proof -
  have ok: "\<forall>e\<in>set (getEngineNames ruleSelection). \<exists>r. outcomeOf pf ca ruleSelection opts e = Inr r"
  proof
    fix e assume e: "e \<in> set (getEngineNames ruleSelection)"
    show "\<exists>r. outcomeOf pf ca ruleSelection opts e = Inr r"
    proof (cases "getEngine ca e")
      case None
      then show ?thesis by (simp add: outcomeOf_cases)
    next
      case (Some engine)
      show ?thesis
      proof (cases "eng_runRules engine (rulesToRunFor ruleSelection e) opts")
        case (Inl error)
        then show ?thesis by (simp add: outcomeOf_cases Some)
      next
        case (Inr results)
        then have "validateEngineRunResults pf e results ruleSelection = Inr ()"
          using assms(2) e Some by blast
        then show ?thesis by (simp add: outcomeOf_cases Some Inr)
      qed
    qed
  qed
  from run_succeeds [OF assms(1) ok] obtain ca' rr where
    run: "run pf ca ruleSelection runOptions = (ca', Inr rr)"
    and names: "set (RunResults_getEngineNames rr) = set (getEngineNames ruleSelection)"
    and get: "\<forall>e\<in>set (getEngineNames ruleSelection). \<forall>r.
                outcomeOf pf ca ruleSelection opts e = Inr r \<longrightarrow> getEngineRunResults rr e = Inr r"
    by blast
  have thrown: "getEngineRunResults rr e = Inr (UnexpectedErrorEngineRunResults e error)"
    if "e \<in> set (getEngineNames ruleSelection)" "getEngine ca e = Some engine"
      "eng_runRules engine (rulesToRunFor ruleSelection e) opts = Inl error" for e engine error
  proof -
    have "outcomeOf pf ca ruleSelection opts e = Inr (UnexpectedErrorEngineRunResults e error)"
      using that by (simp add: outcomeOf_cases)
    then show ?thesis using get that(1) by blast
  qed
  have returned: "getEngineRunResults rr e = Inr (EngineRunResultsImpl e results ruleSelection)"
    if "e \<in> set (getEngineNames ruleSelection)" "getEngine ca e = Some engine"
      "eng_runRules engine (rulesToRunFor ruleSelection e) opts = Inr results" for e engine results
  proof -
    have "validateEngineRunResults pf e results ruleSelection = Inr ()"
      using assms(2) that by blast
    then have "outcomeOf pf ca ruleSelection opts e = Inr (EngineRunResultsImpl e results ruleSelection)"
      using that by (simp add: outcomeOf_cases)
    then show ?thesis using get that(1) by blast
  qed
  have shape: \<open>EngineRunResults_getViolations (UnexpectedErrorEngineRunResults e error)
                         = Inr [UnexpectedEngineErrorViolation e error]
                     \<and> Rule_getSeverityLevel
                           (Violation_getRule (UnexpectedEngineErrorViolation e error)) = Critical
                     \<and> Rule_getType
                           (Violation_getRule (UnexpectedEngineErrorViolation e error)) = UnexpectedError
                     \<and> Violation_getMessage pf (UnexpectedEngineErrorViolation e error)
                         = Inr (''The engine with name "'' @ e
                                @ ''" threw an unexpected error: '' @ Thrown_message error)\<close>
    for e error
    by (simp add: getMessage_UnexpectedEngineErrorViolationMessage)
  show ?thesis
    apply (rule exI [of _ ca'])
    apply (rule exI [of _ rr])
    apply (intro conjI ballI allI impI)
          apply (rule run)
         apply (rule names)
        apply (erule (2) thrown)
       apply (rule shape [THEN conjunct1])
      apply (rule shape [THEN conjunct2, THEN conjunct1])
     apply (rule shape [THEN conjunct2, THEN conjunct2, THEN conjunct1])
    apply (rule shape [THEN conjunct2, THEN conjunct2, THEN conjunct2])
    apply (erule (2) returned)
    done
qed

lemma replaceCount_any_args:
  "snd (replaceMarkers template args) = snd (replaceMarkers template [])"
proof (induction template args rule: replaceMarkers.induct)
  case (3 c d cs args)
  show ?case
  proof (cases "c = CHR ''%'' \<and> (d = CHR ''s'' \<or> d = CHR ''d'')")
    case True
    then show ?thesis
      using True "3.IH"(1) [OF True] by (auto simp: split_beta)
  next
    case False
    then show ?thesis
      using False "3.IH"(2) [OF False] by (auto simp: split_beta)
  qed
qed simp_all

lemma getMessage_succeeds:
  "length args = markerCount msgId \<Longrightarrow> \<exists>text. getMessage pf msgId args = Inr text"
  using replaceCount_any_args [of "messageCatalog msgId" "map (String_arg pf) args"]
  by (auto simp: getMessage_def markerCount_def Let_def split: prod.splits)

lemma markerCounts:
  "markerCount FileOrFolderDoesNotExist = 1"
  "markerCount AtLeastOneFileOrFolderMustBeIncluded = 0"
  "markerCount PathStartPointFileDoesNotExist = 2"
  "markerCount PathStartPointWithMethodMustNotBeFolder = 2"
  "markerCount InvalidPathStartPoint = 1"
  "markerCount PathStartPointMustBeInsideWorkspace = 2"
  "markerCount EngineReturnedViolationForUnselectedRule = 2"
  "markerCount EngineReturnedViolationWithInvalidPrimaryLocationIndex = 4"
  "markerCount EngineReturnedViolationWithCodeLocationFileThatDoesNotExist = 3"
  "markerCount EngineReturnedViolationWithCodeLocationFileAsFolder = 3"
  "markerCount EngineReturnedViolationWithCodeLocationWithInvalidLineOrColumn = 4"
  "markerCount EngineReturnedViolationWithCodeLocationWithEndLineBeforeStartLine = 4"
  "markerCount EngineReturnedViolationWithCodeLocationWithEndColumnBeforeStartColumnOnSameLine = 4"
  by (simp_all add: markerCount_def)

text \<open>The two log messages of \<open>run\<close> have as many arguments as their templates have markers.\<close>

lemma run_log_messages:
  "\<exists>text. getMessage pf RunningWithRunOptions [J v] = Inr text"
  "\<exists>text. getMessage pf RunningEngineWithRules [S engineName, J v] = Inr text"
  by (rule getMessage_succeeds, simp add: markerCount_def)+

lemma mapThrowing_failure:
  "mapThrowing f xs = Inl e \<Longrightarrow> (\<And>x e. f x = Inl e \<Longrightarrow> P e) \<Longrightarrow> P e"
  by (induction xs arbitrary: e) (auto split: sum.splits)

lemma forEachThrowing_failure:
  "forEachThrowing f xs = Inl e \<Longrightarrow> (\<And>x e. f x = Inl e \<Longrightarrow> P e) \<Longrightarrow> P e"
  by (induction xs arbitrary: e) (auto split: sum.splits)

lemma validateFileOrFolder_failure:
  "validateFileOrFolder pf file = Inl e \<Longrightarrow> raisedByOrchestrator e"
  by (auto simp: validateFileOrFolder_def Let_def markerCounts split: if_splits)

lemma validatePathStartPointFile_failure:
  "validatePathStartPointFile pf file s = Inl e \<Longrightarrow> raisedByOrchestrator e \<or> thrownByStatSync pf e"
  by (auto simp: validatePathStartPointFile_def Let_def markerCounts thrownByStatSync_def
      split: if_splits sum.splits)

lemma extractEnginePathStartPoints_failure:
  assumes "extractEnginePathStartPoints pf s = Inl e"
  shows "raisedByOrchestrator e \<or> thrownByStatSync pf e"
proof -
  have m: "raisedByOrchestrator e'"
    if "mapThrowing
          (\<lambda>methodName.
             if \<not> isValidMethodName methodName
             then Inl (Failure InvalidPathStartPoint [S s])
             else Inr \<lparr>pp_file = absFile, pp_methodName = Some methodName\<rparr>) names = Inl e'"
    for absFile names e'
    using that by (rule mapThrowing_failure) (auto simp: markerCounts split: if_splits)
  show ?thesis
    using assms
    by (auto simp: extractEnginePathStartPoints_def Let_def markerCounts
        split: if_splits sum.splits
        dest: validateFileOrFolder_failure validatePathStartPointFile_failure m)
qed

lemma fileIsUnderneath_failure:
  "fileIsUnderneath pf file filesOrFolders = Inl error \<Longrightarrow> \<exists>path. statSync pf path = Inl error"
  by (induction filesOrFolders) (auto split: if_splits sum.splits)

lemma pathStartPointsInsideWorkspaceLoop_failure:
  "pathStartPointsInsideWorkspaceLoop pf opts points = Inl e \<Longrightarrow>
   raisedByOrchestrator e \<or> thrownByStatSync pf e"
  by (induction points)
     (auto simp: markerCounts thrownByStatSync_def split: if_splits sum.splits
        dest: fileIsUnderneath_failure)

lemma extractEngineRunOptions_failure:
  assumes "extractEngineRunOptions pf runOptions = Inl e"
  shows "raisedByOrchestrator e \<or> thrownByStatSync pf e"
proof -
  have a: "raisedByOrchestrator e'"
    if "mapThrowing (validateFileOrFolder pf) files = Inl e'" for files e'
    using that by (rule mapThrowing_failure) (rule validateFileOrFolder_failure)
  have b: "raisedByOrchestrator e' \<or> thrownByStatSync pf e'"
    if "mapThrowing (extractEnginePathStartPoints pf) strs = Inl e'" for strs e'
    using that by (rule mapThrowing_failure) (rule extractEnginePathStartPoints_failure)
  have c: "raisedByOrchestrator e' \<or> thrownByStatSync pf e'"
    if "validatePathStartPointsAreInsideWorkspace pf opts = Inl e'" for opts e'
    using that
    by (auto simp: validatePathStartPointsAreInsideWorkspace_def split: option.splits
        dest: pathStartPointsInsideWorkspaceLoop_failure)
  show ?thesis
    using assms
    by (auto simp: extractEngineRunOptions_def Let_def markerCounts
        split: if_splits sum.splits option.splits dest: a b c)
qed

lemma validateCodeLocation_failure:
  "validateCodeLocation pf v e l = Inl f \<Longrightarrow> raisedByOrchestrator f \<or> thrownByStatSync pf f"
  by (auto simp: validateCodeLocation_def Let_def markerCounts thrownByStatSync_def
      split: if_splits option.splits sum.splits)

lemma validateViolation_failure:
  assumes "validateViolation pf e sel v = Inl f"
  shows "raisedByOrchestrator f \<or> thrownByStatSync pf f"
proof -
  have c: "raisedByOrchestrator f' \<or> thrownByStatSync pf f'"
    if "validateViolationCodeLocations pf v e = Inl f'" for f'
    using that unfolding validateViolationCodeLocations_def
    by (rule forEachThrowing_failure) (rule validateCodeLocation_failure)
  show ?thesis
    using assms
    by (auto simp: validateViolation_def validateViolationRuleName_def
        validateViolationPrimaryLocationIndex_def markerCounts
        split: sum.splits if_splits dest: c)
qed

lemma validateEngineRunResults_failure:
  assumes "validateEngineRunResults pf e results sel = Inl f"
  shows "raisedByOrchestrator f \<or> thrownByStatSync pf f"
  using assms unfolding validateEngineRunResults_def
  by (rule forEachThrowing_failure) (rule validateViolation_failure)

lemma outcomeOf_failure:
  "outcomeOf pf ca sel opts e = Inl f \<Longrightarrow> raisedByOrchestrator f \<or> thrownByStatSync pf f"
  by (auto simp: outcomeOf_cases split: sum.splits option.splits
      dest: validateEngineRunResults_failure)

lemma runLoop_failure:
  "runLoop pf ca sel opts rr names = (ca', Inl f) \<Longrightarrow>
   raisedByOrchestrator f \<or> thrownByStatSync pf f"
proof (induction names arbitrary: ca rr)
  case Nil
  then show ?case by simp
next
  case (Cons n names)
  show ?case
  proof (cases "outcomeOf pf ca sel opts n")
    case (Inl f')
    then show ?thesis
      using Cons.prems outcomeOf_failure [OF Inl] by (simp add: runLoop_step del: runLoop.simps)
  next
    case (Inr r)
    then show ?thesis
      using Cons.prems Cons.IH by (simp add: runLoop_step del: runLoop.simps)
  qed
qed

lemma run_failure:
  "run pf ca sel runOptions = (ca', Inl f) \<Longrightarrow> raisedByOrchestrator f \<or> thrownByStatSync pf f"
  by (auto simp: run_def split: sum.splits
      dest: extractEngineRunOptions_failure runLoop_failure)

text \<open>
  An exception of \<open>fs.statSync\<close> leaves \<open>run\<close> as it is: here from \<open>fileIsUnderneath\<close>, for
  the workspace folder.
\<close>

lemma run_lets_statSync_error_through:
  "snd (run staleFileSystem (exampleAnalyzer [sampleViolation]) exampleSelection
         \<lparr>ro_workspaceFiles = [''test''], ro_pathStartPoints = Some [''test/stubs.ts'']\<rparr>) =
     Inl (Propagated (Thrown (''ENOENT: no such file or directory, stat ''
                              @ [CHR 0x27] @ ''/work/test'' @ [CHR 0x27])))"
  by (simp add: run_def extractEngineRunOptions_def staleFileSystem_def
      posix_def posixResolve_def posixFolders_def posixFiles_def validateFileOrFolder_def
      toAbsolutePath_def removeRedundantPaths_def startsWith_def
      validatePathStartPointsAreInsideWorkspace_def extractEnginePathStartPoints_def Let_def)

text \<open>
  C1, with the condition that it needs. \<open>run\<close> never ends with the exception of an engine:
  every exception that leaves it is one that the orchestrator raises itself, for invalid run
  options or invalid results, or one that \<open>fs.statSync\<close> threw. The engines are called when
  the run options are valid; when, then, every engine of the selection that returns, returns
  results that pass validation, \<open>run\<close> returns results, whatever engines throw: for every engine
  of the selection whose \<open>runRules\<close> throws, the results of the run hold for it the results with
  the single violation of the rule of severity Critical and type UnexpectedError, whose message
  ends with the message of the error thrown, and every engine of the selection that returns
  has its own results in the results of the run.
\<close>

theorem run_isolates_engine_that_throws:
  \<open>(\<forall>ca' failure. run pf ca ruleSelection runOptions = (ca', Inl failure)
        \<longrightarrow> raisedByOrchestrator failure \<or> thrownByStatSync pf failure)
   \<and> (extractEngineRunOptions pf runOptions = Inr opts
        \<and> (\<forall>e\<in>set (getEngineNames ruleSelection). \<forall>engine results.
              getEngine ca e = Some engine
              \<longrightarrow> eng_runRules engine (rulesToRunFor ruleSelection e) opts = Inr results
              \<longrightarrow> validateEngineRunResults pf e results ruleSelection = Inr ())
      \<longrightarrow> (\<exists>ca' runResults.
           run pf ca ruleSelection runOptions = (ca', Inr runResults)
           \<and> set (RunResults_getEngineNames runResults) = set (getEngineNames ruleSelection)
           \<and> (\<forall>e\<in>set (getEngineNames ruleSelection). \<forall>engine error.
                 getEngine ca e = Some engine
                 \<longrightarrow> eng_runRules engine (rulesToRunFor ruleSelection e) opts = Inl error
                 \<longrightarrow> getEngineRunResults runResults e = Inr (UnexpectedErrorEngineRunResults e error)
                     \<and> EngineRunResults_getViolations (UnexpectedErrorEngineRunResults e error)
                         = Inr [UnexpectedEngineErrorViolation e error]
                     \<and> Rule_getSeverityLevel
                           (Violation_getRule (UnexpectedEngineErrorViolation e error)) = Critical
                     \<and> Rule_getType
                           (Violation_getRule (UnexpectedEngineErrorViolation e error)) = UnexpectedError
                     \<and> Violation_getMessage pf (UnexpectedEngineErrorViolation e error)
                         = Inr (''The engine with name "'' @ e
                                @ ''" threw an unexpected error: '' @ Thrown_message error))
           \<and> (\<forall>e\<in>set (getEngineNames ruleSelection). \<forall>engine results.
                 getEngine ca e = Some engine
                 \<longrightarrow> eng_runRules engine (rulesToRunFor ruleSelection e) opts = Inr results
                 \<longrightarrow> getEngineRunResults runResults e
                       = Inr (EngineRunResultsImpl e results ruleSelection))))\<close>
proof (rule conjI)
  show "\<forall>ca' failure. run pf ca ruleSelection runOptions = (ca', Inl failure)
          \<longrightarrow> raisedByOrchestrator failure \<or> thrownByStatSync pf failure"
    using run_failure by blast
next
  show \<open>extractEngineRunOptions pf runOptions = Inr opts
        \<and> (\<forall>e\<in>set (getEngineNames ruleSelection). \<forall>engine results.
              getEngine ca e = Some engine
              \<longrightarrow> eng_runRules engine (rulesToRunFor ruleSelection e) opts = Inr results
              \<longrightarrow> validateEngineRunResults pf e results ruleSelection = Inr ())
      \<longrightarrow> (\<exists>ca' runResults.
           run pf ca ruleSelection runOptions = (ca', Inr runResults)
           \<and> set (RunResults_getEngineNames runResults) = set (getEngineNames ruleSelection)
           \<and> (\<forall>e\<in>set (getEngineNames ruleSelection). \<forall>engine error.
                 getEngine ca e = Some engine
                 \<longrightarrow> eng_runRules engine (rulesToRunFor ruleSelection e) opts = Inl error
                 \<longrightarrow> getEngineRunResults runResults e = Inr (UnexpectedErrorEngineRunResults e error)
                     \<and> EngineRunResults_getViolations (UnexpectedErrorEngineRunResults e error)
                         = Inr [UnexpectedEngineErrorViolation e error]
                     \<and> Rule_getSeverityLevel
                           (Violation_getRule (UnexpectedEngineErrorViolation e error)) = Critical
                     \<and> Rule_getType
                           (Violation_getRule (UnexpectedEngineErrorViolation e error)) = UnexpectedError
                     \<and> Violation_getMessage pf (UnexpectedEngineErrorViolation e error)
                         = Inr (''The engine with name "'' @ e
                                @ ''" threw an unexpected error: '' @ Thrown_message error))
           \<and> (\<forall>e\<in>set (getEngineNames ruleSelection). \<forall>engine results.
                 getEngine ca e = Some engine
                 \<longrightarrow> eng_runRules engine (rulesToRunFor ruleSelection e) opts = Inr results
                 \<longrightarrow> getEngineRunResults runResults e
                       = Inr (EngineRunResultsImpl e results ruleSelection)))\<close>
    by (intro impI, elim conjE, rule run_with_engines_that_throw)
qed

lemma exampleSelection_names: "getEngineNames exampleSelection = [''throwingEngine'', ''stubEngine1'']"
  by (simp add: getEngineNames_def exampleSelection_def)

theorem run_isolates_engine_that_throws_witness:
  \<open>extractEngineRunOptions posix exampleRunOptions = Inr exampleEngineRunOptions
   \<and> (\<exists>ca' runResults.
         run posix (exampleAnalyzer [sampleViolation]) exampleSelection exampleRunOptions
           = (ca', Inr runResults)
         \<and> getEngineRunResults runResults ''throwingEngine''
             = Inr (UnexpectedErrorEngineRunResults ''throwingEngine''
                      (Thrown ''SomeErrorMessageFromThrowingEngine''))
         \<and> getEngineRunResults runResults ''stubEngine1''
             = Inr (EngineRunResultsImpl ''stubEngine1'' \<lparr>violations = [sampleViolation]\<rparr>
                      exampleSelection))
   \<and> Violation_getMessage posix
         (UnexpectedEngineErrorViolation ''throwingEngine''
            (Thrown ''SomeErrorMessageFromThrowingEngine''))
       = Inr (''The engine with name "throwingEngine" threw an unexpected error: ''
              @ ''SomeErrorMessageFromThrowingEngine'')\<close>
proof -
  let ?ca = "exampleAnalyzer [sampleViolation]"
  have h2: "\<forall>e\<in>set (getEngineNames exampleSelection). \<forall>engine results.
           getEngine ?ca e = Some engine
           \<longrightarrow> eng_runRules engine (rulesToRunFor exampleSelection e) exampleEngineRunOptions = Inr results
           \<longrightarrow> validateEngineRunResults posix e results exampleSelection = Inr ()"
    using sampleViolation_valid
    by (simp add: exampleSelection_names getEngine_def exampleAnalyzer_def throwingEngine_def
        stubEngine1_def)
  from run_isolates_engine_that_throws
    [THEN conjunct2, rule_format, OF conjI [OF exampleEngineRunOptions_eq h2]]
  obtain ca' rr where
    run: "run posix ?ca exampleSelection exampleRunOptions = (ca', Inr rr)"
    and thrown: "\<forall>e\<in>set (getEngineNames exampleSelection). \<forall>engine error.
                 getEngine ?ca e = Some engine
                 \<longrightarrow> eng_runRules engine (rulesToRunFor exampleSelection e) exampleEngineRunOptions = Inl error
                 \<longrightarrow> getEngineRunResults rr e = Inr (UnexpectedErrorEngineRunResults e error)
                     \<and> Violation_getMessage posix (UnexpectedEngineErrorViolation e error)
                         = Inr (''The engine with name '' @ [CHR 0x22] @ e
                                @ [CHR 0x22] @ '' threw an unexpected error: '' @ Thrown_message error)"
    and returned: "\<forall>e\<in>set (getEngineNames exampleSelection). \<forall>engine results.
                 getEngine ?ca e = Some engine
                 \<longrightarrow> eng_runRules engine (rulesToRunFor exampleSelection e) exampleEngineRunOptions = Inr results
                 \<longrightarrow> getEngineRunResults rr e
                       = Inr (EngineRunResultsImpl e results exampleSelection)"
    by auto
  have t: "getEngineRunResults rr ''throwingEngine''
             = Inr (UnexpectedErrorEngineRunResults ''throwingEngine''
                      (Thrown ''SomeErrorMessageFromThrowingEngine''))"
    and m: "Violation_getMessage posix
         (UnexpectedEngineErrorViolation ''throwingEngine''
            (Thrown ''SomeErrorMessageFromThrowingEngine''))
       = Inr (''The engine with name '' @ [CHR 0x22] @ ''throwingEngine'' @ [CHR 0x22] @ '' threw an unexpected error: ''
              @ ''SomeErrorMessageFromThrowingEngine'')"
    using thrown [rule_format, of "''throwingEngine''" throwingEngine "Thrown ''SomeErrorMessageFromThrowingEngine''"]
    by (simp_all add: exampleSelection_names getEngine_def exampleAnalyzer_def throwingEngine_def)
  have s: "getEngineRunResults rr ''stubEngine1''
             = Inr (EngineRunResultsImpl ''stubEngine1'' \<lparr>violations = [sampleViolation]\<rparr>
                      exampleSelection)"
    using returned [rule_format, of "''stubEngine1''" "stubEngine1 [sampleViolation]" "\<lparr>violations = [sampleViolation]\<rparr>"]
    by (simp add: exampleSelection_names getEngine_def exampleAnalyzer_def stubEngine1_def)
  show ?thesis
    using exampleEngineRunOptions_eq run t s m by simp
qed

lemma example_run_bad_index_events:
  "EngineResultsEvent (UnexpectedErrorEngineRunResults ''throwingEngine''
       (Thrown ''SomeErrorMessageFromThrowingEngine''))
     \<in> set (emitted (fst (run posix (exampleAnalyzer [badIndexViolation]) exampleSelection
                            exampleRunOptions)))"
  by (simp add: run_def exampleEngineRunOptions_eq exampleSelection_def getEngineNames_def
      runEngineAndValidateResults_def Let_def getEngine_def emitLogEvent_def emitEvent_def
      exampleAnalyzer_def throwingEngine_def stubEngine1_def rulesToRunFor_def getRulesFor_def
      addEngineRunResults_def validateEngineRunResults_def validateViolation_def
      validateViolationRuleName_def getRule_def stub1RuleA_def badIndexViolation_def
      sampleViolation_def validateViolationPrimaryLocationIndex_def isIntegerBetween_def
      number_ge_def lengthOf_def)

text \<open>
  Without that condition there may be no results at all: the first engine of the selection
  throws, which \<open>run\<close> catches and reports in an event; the second returns a violation with an
  invalid primary location index, and \<open>run\<close> ends with the exception of the validation.
\<close>

theorem invalid_results_counterexample:
  \<open>extractEngineRunOptions posix exampleRunOptions = Inr exampleEngineRunOptions
   \<and> getEngineNames exampleSelection = [''throwingEngine'', ''stubEngine1'']
   \<and> getEngine (exampleAnalyzer [badIndexViolation]) ''throwingEngine'' = Some throwingEngine
   \<and> eng_runRules throwingEngine (rulesToRunFor exampleSelection ''throwingEngine'')
         exampleEngineRunOptions
       = Inl (Thrown ''SomeErrorMessageFromThrowingEngine'')
   \<and> EngineResultsEvent (UnexpectedErrorEngineRunResults ''throwingEngine''
         (Thrown ''SomeErrorMessageFromThrowingEngine''))
       \<in> set (emitted (fst (run posix (exampleAnalyzer [badIndexViolation]) exampleSelection
                              exampleRunOptions)))
   \<and> snd (run posix (exampleAnalyzer [badIndexViolation]) exampleSelection exampleRunOptions) =
       Inl (Failure EngineReturnedViolationWithInvalidPrimaryLocationIndex
              [S ''stubEngine1'', S ''stub1RuleA'', N (Fin 1), N (Fin 1)])\<close>
  using exampleEngineRunOptions_eq exampleSelection_names example_run_bad_index
    example_run_bad_index_events
  by (simp add: getEngine_def exampleAnalyzer_def throwingEngine_def)

section \<open>Registration: properties\<close>

text \<open>
  What \<open>addEngineIfValid\<close> does for an engine that it rejects: one \<open>Error\<close> log event, and
  nothing else changes.
\<close>

lemma addEngineIfValid_rejects:
  assumes "map_of (engines ca) engineName \<noteq> None \<or> engineName \<noteq> eng_getName engine
           \<or> eng_validate engine \<noteq> None"
  shows "\<exists>msgId args. addEngineIfValid ca engineName engine =
           ca\<lparr>emitted := emitted ca @ [LogEvent LogError msgId args]\<rparr>"
  using assms
  by (auto simp: addEngineIfValid_def emitLogEvent_def emitEvent_def split: option.splits)

lemma updateRuleDescriptionWithOverrides_keeps:
  "updateRuleDescriptionWithOverrides ca e rd = (ca', rd') \<Longrightarrow>
   engines ca' = engines ca \<and> config ca' = config ca \<and> allRules ca' = allRules ca
   \<and> filter isErrorLogEvent (emitted ca') = filter isErrorLogEvent (emitted ca)
   \<and> rd_name rd' = rd_name rd"
  by (auto simp: updateRuleDescriptionWithOverrides_def Let_def emitLogEvent_def emitEvent_def
      split: option.splits prod.splits)

lemma cacheRules_keeps:
  "engines (cacheRules ca e rds) = engines ca
   \<and> config (cacheRules ca e rds) = config ca
   \<and> filter isErrorLogEvent (emitted (cacheRules ca e rds)) = filter isErrorLogEvent (emitted ca)
   \<and> map (\<lambda>r. (fst r, rd_name (snd r))) (allRules (cacheRules ca e rds)) =
       map (\<lambda>r. (fst r, rd_name (snd r))) (allRules ca) @ map (\<lambda>rd. (e, rd_name rd)) rds"
proof (induction rds arbitrary: ca)
  case Nil
  show ?case by simp
next
  case (Cons rd rds)
  obtain ca1 rd1 where u: "updateRuleDescriptionWithOverrides ca e rd = (ca1, rd1)"
    by (cases "updateRuleDescriptionWithOverrides ca e rd")
  from updateRuleDescriptionWithOverrides_keeps [OF u]
  show ?case
    using Cons.IH [of "ca1\<lparr>allRules := allRules ca1 @ [(e, rd1)]\<rparr>"] u by simp
qed

text \<open>
  What the loop of \<open>addEnginePlugin\<close> does for an engine that \<open>addEngineIfValid\<close> rejects and
  whose rule descriptions are well-formed: the call goes on without failing, the engines stay
  as they were and one \<open>Error\<close> log event is emitted, and the rules of the rejected engine are
  appended to the catalog under the advertised name.
\<close>

lemma addEngines_rejected_engine:
  assumes rejected: "map_of (engines ca) engineName \<noteq> None \<or> engineName \<noteq> eng_getName engine
                     \<or> eng_validate engine \<noteq> None"
    and created: "createEngineFromPlugin enginePlugin engineName
                    (getEngineConfigFor (config ca) engineName) = Inr engine"
    and described: "eng_describeRules engine = Inr ruleDescriptions"
    and valid: "validateRuleDescriptions ruleDescriptions engineName = Inr ()"
  shows "\<exists>ca'. addEngines ca enginePlugin [engineName] = (ca', None)
           \<and> engines ca' = engines ca
           \<and> length (filter isErrorLogEvent (emitted ca'))
               = length (filter isErrorLogEvent (emitted ca)) + 1
           \<and> map (\<lambda>r. (fst r, rd_name (snd r))) (allRules ca') =
               map (\<lambda>r. (fst r, rd_name (snd r))) (allRules ca)
               @ map (\<lambda>rd. (engineName, rd_name rd)) ruleDescriptions"
proof -
  obtain msgId args where
    a: "addEngineIfValid ca engineName engine = ca\<lparr>emitted := emitted ca @ [LogEvent LogError msgId args]\<rparr>"
    using addEngineIfValid_rejects [OF rejected] by blast
  let ?ca1 = "ca\<lparr>emitted := emitted ca @ [LogEvent LogError msgId args]\<rparr>"
  have "addEngines ca enginePlugin [engineName] = (cacheRules ?ca1 engineName ruleDescriptions, None)"
    using created described valid a by (simp add: Let_def)
  then show ?thesis
    using cacheRules_keeps [of ?ca1 engineName ruleDescriptions] by simp
qed

text \<open>
  C2, at the plugin of the test suite whose engine reports another name than the plugin
  advertised: the engine is rejected with one \<open>Error\<close> log event, the engines stay as they
  were and the call does not fail, but the rule descriptions of the rejected engine are fetched
  and cached under the advertised name, so a selection names an engine that is not
  registered. Adding the stub plugin a second time logs one \<open>Error\<close> event for the duplicate
  and leaves the engines as they were, and caches the rules of the engine a second time.
\<close>

theorem addEnginePlugin_caches_rules_of_rejected_engine:
  "addEnginePlugin emptyAnalyzer contradictingEnginePlugin =
     (\<lparr>config = defaultConfig, engines = [],
       allRules = [(''stubEngine1'', stub2RuleC)],
       emitted = [LogEvent LogError EngineNameContradiction [S ''stubEngine1'', S ''stubEngine2'']]\<rparr>,
      None)
   \<and> getEngineNames
       (selectRules (allRules (fst (addEnginePlugin emptyAnalyzer contradictingEnginePlugin))) [])
     = [''stubEngine1'']
   \<and> getEngine (fst (addEnginePlugin emptyAnalyzer contradictingEnginePlugin)) ''stubEngine1'' = None
   \<and> addEnginePlugin (fst (addEnginePlugin emptyAnalyzer stubEnginePlugin)) stubEnginePlugin =
     (\<lparr>config = defaultConfig, engines = [(''stubEngine1'', stubEngine1 [])],
       allRules = [(''stubEngine1'', stub1RuleA), (''stubEngine1'', stub1RuleD),
                   (''stubEngine1'', stub1RuleA), (''stubEngine1'', stub1RuleD)],
       emitted = [LogEvent LogDebug EngineAdded [S ''stubEngine1''],
                  LogEvent LogError DuplicateEngine [S ''stubEngine1'']]\<rparr>,
      None)"
proof -
  have 1: "addEnginePlugin emptyAnalyzer contradictingEnginePlugin =
     (\<lparr>config = defaultConfig, engines = [],
       allRules = [(''stubEngine1'', stub2RuleC)],
       emitted = [LogEvent LogError EngineNameContradiction [S ''stubEngine1'', S ''stubEngine2'']]\<rparr>,
      None)"
    by (simp add: addEnginePlugin_def contradictingEnginePlugin_def ENGINE_API_VERSION_def
        number_gt_def getAvailableEngineNamesFromPlugin_def createEngineFromPlugin_def
        emptyAnalyzer_def addEngineIfValid_def stubEngine2_def emitLogEvent_def emitEvent_def
        validateRuleDescriptions_def updateRuleDescriptionWithOverrides_def getRuleOverrideFor_def
        getRuleOverridesFor_def getEngineConfigFor_def defaultConfig_def Let_def)
  have 2: "addEnginePlugin emptyAnalyzer stubEnginePlugin =
     (\<lparr>config = defaultConfig, engines = [(''stubEngine1'', stubEngine1 [])],
       allRules = [(''stubEngine1'', stub1RuleA), (''stubEngine1'', stub1RuleD)],
       emitted = [LogEvent LogDebug EngineAdded [S ''stubEngine1'']]\<rparr>,
      None)"
    by (simp add: addEnginePlugin_def stubEnginePlugin_def ENGINE_API_VERSION_def
        number_gt_def getAvailableEngineNamesFromPlugin_def createEngineFromPlugin_def
        emptyAnalyzer_def addEngineIfValid_def stubEngine1_def emitLogEvent_def emitEvent_def
        validateRuleDescriptions_def updateRuleDescriptionWithOverrides_def getRuleOverrideFor_def
        getRuleOverridesFor_def getEngineConfigFor_def defaultConfig_def Let_def
        stub1RuleA_def stub1RuleD_def)
  have 3: "addEnginePlugin
       \<lparr>config = defaultConfig, engines = [(''stubEngine1'', stubEngine1 [])],
        allRules = [(''stubEngine1'', stub1RuleA), (''stubEngine1'', stub1RuleD)],
        emitted = [LogEvent LogDebug EngineAdded [S ''stubEngine1'']]\<rparr>
       stubEnginePlugin =
     (\<lparr>config = defaultConfig, engines = [(''stubEngine1'', stubEngine1 [])],
       allRules = [(''stubEngine1'', stub1RuleA), (''stubEngine1'', stub1RuleD),
                   (''stubEngine1'', stub1RuleA), (''stubEngine1'', stub1RuleD)],
       emitted = [LogEvent LogDebug EngineAdded [S ''stubEngine1''],
                  LogEvent LogError DuplicateEngine [S ''stubEngine1'']]\<rparr>,
      None)"
    by (simp add: addEnginePlugin_def stubEnginePlugin_def ENGINE_API_VERSION_def
        number_gt_def getAvailableEngineNamesFromPlugin_def createEngineFromPlugin_def
        addEngineIfValid_def stubEngine1_def emitLogEvent_def emitEvent_def
        validateRuleDescriptions_def updateRuleDescriptionWithOverrides_def getRuleOverrideFor_def
        getRuleOverridesFor_def getEngineConfigFor_def defaultConfig_def Let_def
        stub1RuleA_def stub1RuleD_def)
  have 4: "getEngineNames (selectRules [(''stubEngine1'', stub2RuleC)] []) = [''stubEngine1'']"
    by (simp add: selectRules_def matchesRuleSelector_def selectables_def stub2RuleC_def
        toLowerCase_def toLowerCaseChar_def isUpperCase_def addRule_def RuleSelection_has_def
        getEngineNames_def Let_def)
  show ?thesis
    by (simp add: 1 2 3 4 getEngine_def)
qed

end
